theory Spec2Isabelle
  imports Main "HOL-Library.Word" "HOL-Library.Sublist"
begin

unbundle bit_operations_syntax

section \<open>Wire primitives (common.h, dns.h)\<close>

text \<open>
  A C byte array is a function from the index to the byte stored there; the capacity
  of the array is the constant of the header file that declares it, and every access
  the code does not keep below that capacity by itself is a separate result of the
  model. An \<open>unsigned int\<close> is a natural number (no value of the packet path comes
  near \<open>2 ^ 32\<close>); a \<open>uint8_t\<close> or \<open>uint16_t\<close> field is a natural number reduced
  \<open>mod 2 ^ 8\<close> or \<open>mod 2 ^ 16\<close> where it is stored.
\<close>

type_synonym byte = "8 word"
type_synonym bytes = "nat \<Rightarrow> byte"

definition MDNS_MAX_PACKET_SIZE :: nat where "MDNS_MAX_PACKET_SIZE = 9000"
definition DNS_MAX_NAME_LEN :: nat where "DNS_MAX_NAME_LEN = 256"
definition DNS_MAX_NUM_LABELS :: nat where "DNS_MAX_NUM_LABELS = 128"
definition MAX_NUM_LABELS :: nat where "MAX_NUM_LABELS = 127"

text \<open>\<open>packet_t\<close>: the number of bytes received and the buffer of 9000 bytes.\<close>

record packet =
  bytes :: nat
  buffer :: bytes

text \<open>\<open>dns_name_t\<close>: \<open>length\<close>, \<open>count\<close>, \<open>offset[128]\<close> and \<open>labels[256]\<close>.\<close>

record dns_name =
  name_length :: nat
  name_count :: nat
  name_offset :: "nat \<Rightarrow> nat"
  name_labels :: bytes

text \<open>
  \<open>dns_match_name_t\<close> is a length and a flexible array of exactly that many bytes:
  a list of bytes. \<open>filter_list_t\<close> is a mode and a counted array of match names:
  the array with its count is a list.
\<close>

type_synonym dns_match_name = "byte list"

datatype filter_allow_deny = ALLOW | DENY

record filter_list =
  allow_deny :: filter_allow_deny
  names :: "dns_match_name list"

text \<open>
  \<open>interface_t\<close>, as far as the packet path reads it. The bridge of one address
  family reads of an interface its own fields and, through \<open>peer_list\<close>, the own
  fields of its peers: \<open>interface\<close> holds the own fields, \<open>bridge_interface\<close> adds
  the fan-out tables of the family (\<open>peer_count\<close> and \<open>peer_filter_count\<close> are the
  lengths of the two lists). Outbound filter lists are compared by address in
  the code; \<open>set_interface_outbound_filter_list\<close> makes two lists with the same mode
  and match names one object, so the model compares them by value.
\<close>

record interface =
  if_name :: string
  inbound_filter_list :: "filter_list option"
  outbound_filter_list :: "filter_list option"
  if_index :: nat
  sock :: int

record bridge_interface = interface +
  peer_list :: "interface list"
  peer_filter_list :: "filter_list list"
  peer_nofilter_count :: nat

text \<open>\<open>n\<close> bytes of an array from offset \<open>off\<close>, as a list.\<close>

definition region :: "bytes \<Rightarrow> nat \<Rightarrow> nat \<Rightarrow> byte list" where
  "region b off n = map b [off ..< off + n]"

text \<open>An array holding the given bytes, and zero after them.\<close>

definition bytes_of :: "byte list \<Rightarrow> bytes" where
  "bytes_of xs = (\<lambda>i. if i < length xs then xs ! i else 0)"

section \<open>Filter evaluation (filter.c, dns\_decode.c)\<close>

text \<open>
  \<open>memmem\<close> of the C library: whether the needle occurs in the haystack at some
  position (an empty needle occurs at position 0).
\<close>

fun memmem :: "byte list \<Rightarrow> byte list \<Rightarrow> bool" where
  "memmem [] needle = (needle = [])"
| "memmem (h # hs) needle = (take (length needle) (h # hs) = needle \<or> memmem hs needle)"

definition dns_subset_match :: "dns_name \<Rightarrow> dns_match_name \<Rightarrow> bool" where
  "dns_subset_match name subset_name =
     memmem (region (name_labels name) 0 (name_length name)) subset_name"

text \<open>The loop of \<open>filter_list_allowed\<close>: stop at the first match name that matches.\<close>

fun filter_list_match :: "dns_name \<Rightarrow> dns_match_name list \<Rightarrow> bool" where
  "filter_list_match name [] = False"
| "filter_list_match name (m # ms) =
     (if dns_subset_match name m then True else filter_list_match name ms)"

definition filter_list_allowed :: "filter_list \<Rightarrow> dns_name \<Rightarrow> bool" where
  "filter_list_allowed fl name =
     (let match = filter_list_match name (names fl)
      in if (match \<and> allow_deny fl = ALLOW) \<or> (\<not> match \<and> allow_deny fl = DENY)
         then True else False)"

text \<open>
  \<open>allowed_inbound\<close> reads the global variable \<open>global_filter_list\<close> and the field
  \<open>inbound_filter_list\<close> of the interface; both may be null.
\<close>

definition allowed_inbound ::
  "filter_list option \<Rightarrow> 'a interface_scheme \<Rightarrow> dns_name \<Rightarrow> bool" where
  "allowed_inbound global_filter_list iface name =
     (let allowed = (case global_filter_list of
                       None \<Rightarrow> True
                     | Some g \<Rightarrow> filter_list_allowed g name)
      in case inbound_filter_list iface of
           None \<Rightarrow> allowed
         | Some f \<Rightarrow> if allowed then filter_list_allowed f name else allowed)"

definition allowed_outbound :: "filter_list option \<Rightarrow> dns_name \<Rightarrow> bool" where
  "allowed_outbound fl name =
     (case fl of None \<Rightarrow> True | Some f \<Rightarrow> filter_list_allowed f name)"

text \<open>
  The specification's reading of a filter list: the label bytes of a name are its
  first \<open>length\<close> bytes, and a list admits the name when its mode is ALLOW and some
  match name is a contiguous part of them, or its mode is DENY and none is.
\<close>

definition label_bytes :: "dns_name \<Rightarrow> byte list" where
  "label_bytes name = region (name_labels name) 0 (name_length name)"

definition admits :: "filter_list \<Rightarrow> dns_name \<Rightarrow> bool" where
  "admits fl name =
     ((allow_deny fl = ALLOW \<and> (\<exists>m \<in> set (names fl). sublist m (label_bytes name))) \<or>
      (allow_deny fl = DENY \<and> \<not> (\<exists>m \<in> set (names fl). sublist m (label_bytes name))))"

definition admits_opt :: "filter_list option \<Rightarrow> dns_name \<Rightarrow> bool" where
  "admits_opt fl name = (case fl of None \<Rightarrow> True | Some f \<Rightarrow> admits f name)"

section \<open>Decoder and encoder state (dns.h)\<close>

definition MAX_QUERY_COUNT :: nat where "MAX_QUERY_COUNT = 1498"
definition MAX_RESOURCE_COUNT :: nat where "MAX_RESOURCE_COUNT = 749"
definition INITIAL_QUERY_COUNT :: nat where "INITIAL_QUERY_COUNT = 25"
definition INITIAL_RESOURCE_COUNT :: nat where "INITIAL_RESOURCE_COUNT = 50"

definition DNS_TYPE_A :: nat where "DNS_TYPE_A = 1"
definition DNS_TYPE_CNAME :: nat where "DNS_TYPE_CNAME = 5"
definition DNS_TYPE_PTR :: nat where "DNS_TYPE_PTR = 12"
definition DNS_TYPE_HINFO :: nat where "DNS_TYPE_HINFO = 13"
definition DNS_TYPE_TXT :: nat where "DNS_TYPE_TXT = 16"
definition DNS_TYPE_AAAA :: nat where "DNS_TYPE_AAAA = 28"
definition DNS_TYPE_SRV :: nat where "DNS_TYPE_SRV = 33"
definition DNS_TYPE_DNAME :: nat where "DNS_TYPE_DNAME = 39"
definition DNS_TYPE_OPT :: nat where "DNS_TYPE_OPT = 41"
definition DNS_TYPE_NSEC :: nat where "DNS_TYPE_NSEC = 47"
definition DNS_TYPE_SVCB :: nat where "DNS_TYPE_SVCB = 64"
definition DNS_TYPE_HTTPS :: nat where "DNS_TYPE_HTTPS = 65"
definition DNS_TYPE_ANY :: nat where "DNS_TYPE_ANY = 255"

text \<open>The sizes of the packed wire structures.\<close>

definition sizeof_dns_header :: nat where "sizeof_dns_header = 12"
definition sizeof_dns_query_header :: nat where "sizeof_dns_query_header = 4"
definition sizeof_dns_rr_header :: nat where "sizeof_dns_rr_header = 10"
definition sizeof_dns_rr_srv_data :: nat where "sizeof_dns_rr_srv_data = 6"

text \<open>
  \<open>IS_LABEL_POINTER\<close> and \<open>POINTER_OFFSET\<close>. The second is
  \<open>(hb & 0x3F) << 8 | lb\<close> on \<open>unsigned\<close>.
\<close>

definition IS_LABEL_POINTER :: "byte \<Rightarrow> bool" where
  "IS_LABEL_POINTER len = (len AND 0xC0 = 0xC0)"

definition POINTER_OFFSET :: "byte \<Rightarrow> byte \<Rightarrow> nat" where
  "POINTER_OFFSET hb lb = push_bit 8 (unat (hb AND 0x3F)) OR unat lb"

text \<open>
  \<open>OFFSET_TO_POINTER\<close> is \<open>htons((off & 0x3FFF) | 0xC000)\<close>. The model keeps a
  \<open>uint16_t\<close> that has gone through \<open>htons\<close> as the number whose high byte is stored
  at the lower address, so that \<open>htons\<close> and \<open>ntohs\<close> are the identity and storing
  the value writes its high byte first, on either byte order of the host.
\<close>

definition OFFSET_TO_POINTER :: "nat \<Rightarrow> nat" where
  "OFFSET_TO_POINTER off = (off AND 0x3FFF) OR 0xC000"

text \<open>Reading and writing a 16-bit field in network byte order.\<close>

definition get16 :: "bytes \<Rightarrow> nat \<Rightarrow> nat" where
  "get16 b off = unat (b off) * 256 + unat (b (off + 1))"

definition put16 :: "bytes \<Rightarrow> nat \<Rightarrow> nat \<Rightarrow> bytes" where
  "put16 b off v = b(off := of_nat (v div 256), off + 1 := of_nat v)"

text \<open>\<open>memcpy\<close> of \<open>n\<close> bytes from \<open>src + soff\<close> to \<open>dst + doff\<close> (two different arrays).\<close>

definition memcpy :: "bytes \<Rightarrow> nat \<Rightarrow> bytes \<Rightarrow> nat \<Rightarrow> nat \<Rightarrow> bytes" where
  "memcpy dst doff src soff n =
     (\<lambda>i. if doff \<le> i \<and> i < doff + n then src (soff + (i - doff)) else dst i)"

text \<open>
  \<open>dns_query_t\<close> and \<open>dns_rr_t\<close>; \<open>data\<close> points into the buffer of the received
  packet and is kept as the offset there.
\<close>

record dns_query =
  q_data :: nat
  q_type :: nat
  q_name :: dns_name

record dns_rr =
  rr_data :: nat
  rr_type :: nat
  rr_secondary_len :: nat
  rr_name :: dns_name
  rr_rdata_name :: dns_name

text \<open>
  \<open>compression_entry_t\<close>. \<open>label\<close> points to a label inside a decoded name or to
  one of the two constant labels of the initializer; these bytes do not change while a
  packet is encoded, and the model keeps the memory as the pointer sees it, the length
  byte at index 0 (\<open>None\<close> is the null pointer).
\<close>

record compression_entry =
  label :: "bytes option"
  child_index :: nat
  child_allocated :: nat
  child_used :: nat
  pointer :: nat

text \<open>What the process writes to its log: \<open>dns_packet_error\<close> and \<open>logger\<close>, each with
  its format string and arguments.\<close>

datatype log_arg = U nat | S string | B "byte list"

datatype log_entry = Packet_error string "log_arg list" | Logger string "log_arg list"

text \<open>
  \<open>_dns_state_t\<close>, with the three heap arrays as functions from the index, and with
  it what the packet path shares with its environment. \<open>realloc\<close> is the
  environment's: its \<open>k\<close>-th call succeeds when \<open>realloc_answers k\<close> holds, and
  \<open>realloc_calls\<close> counts the calls made. \<open>log_lines\<close> are the lines logged so far.
\<close>

record dns_state =
  recv_query_count :: nat
  recv_rr_count :: "nat \<Rightarrow> nat"
  query_count :: nat
  rr_index :: "nat \<Rightarrow> nat"
  rr_count :: "nat \<Rightarrow> nat"
  total_rr_count :: nat
  allocated_query_count :: nat
  allocated_rr_count :: nat
  query_list :: "nat \<Rightarrow> dns_query"
  rr_list :: "nat \<Rightarrow> dns_rr"
  used_clist_count :: nat
  allocated_clist_count :: nat
  clist :: "nat \<Rightarrow> compression_entry"
  realloc_answers :: "nat \<Rightarrow> bool"
  realloc_calls :: nat
  log_lines :: "log_entry list"

definition RR_ANSWER :: nat where "RR_ANSWER = 0"
definition RR_AUTHORITY :: nat where "RR_AUTHORITY = 1"
definition RR_ADDITIONAL :: nat where "RR_ADDITIONAL = 2"
definition NUM_RR_SECTION_TYPES :: nat where "NUM_RR_SECTION_TYPES = 3"

definition rr_section_name :: "nat \<Rightarrow> string" where
  "rr_section_name t =
     (if t = RR_ANSWER then ''answer'' else if t = RR_AUTHORITY then ''authority''
      else ''additional'')"

text \<open>One call of \<open>realloc\<close>: the environment's answer, and the call counted.\<close>

definition realloc_ok :: "dns_state \<Rightarrow> bool" where
  "realloc_ok st = realloc_answers st (realloc_calls st)"

definition realloc_called :: "dns_state \<Rightarrow> dns_state" where
  "realloc_called st = st\<lparr>realloc_calls := realloc_calls st + 1\<rparr>"

definition logged :: "dns_state \<Rightarrow> log_entry list \<Rightarrow> dns_state" where
  "logged st lg = st\<lparr>log_lines := log_lines st @ lg\<rparr>"

text \<open>
  The ways a call does not return normally: an access outside a C array or through a
  null pointer, whose behaviour C leaves undefined, and \<open>fatal\<close>, which ends the
  process.
\<close>

datatype fault = Out_of_bounds | Null_pointer | Fatal_exit

text \<open>Memory from \<open>calloc\<close>: every field zero, every pointer null.\<close>

definition zero_name :: dns_name where
  "zero_name = \<lparr>name_length = 0, name_count = 0, name_offset = (\<lambda>i. 0), name_labels = (\<lambda>i. 0)\<rparr>"

definition zero_query :: dns_query where
  "zero_query = \<lparr>q_data = 0, q_type = 0, q_name = zero_name\<rparr>"

definition zero_rr :: dns_rr where
  "zero_rr = \<lparr>rr_data = 0, rr_type = 0, rr_secondary_len = 0, rr_name = zero_name,
              rr_rdata_name = zero_name\<rparr>"

definition zero_entry :: compression_entry where
  "zero_entry = \<lparr>label = None, child_index = 0, child_allocated = 0, child_used = 0, pointer = 0\<rparr>"

definition clist_initializer_count :: nat where "clist_initializer_count = 8"

text \<open>
  \<open>dns_state_create\<close> with \<open>clist_alloc\<close>, where the three allocations succeed (the
  process ends otherwise); the argument is the behaviour of \<open>realloc\<close> from then on.
\<close>

definition dns_state_create :: "(nat \<Rightarrow> bool) \<Rightarrow> dns_state" where
  "dns_state_create answers =
     \<lparr>recv_query_count = 0, recv_rr_count = (\<lambda>t. 0), query_count = 0, rr_index = (\<lambda>t. 0),
      rr_count = (\<lambda>t. 0), total_rr_count = 0,
      allocated_query_count = INITIAL_QUERY_COUNT, allocated_rr_count = INITIAL_RESOURCE_COUNT,
      query_list = (\<lambda>i. zero_query), rr_list = (\<lambda>i. zero_rr),
      used_clist_count = 0, allocated_clist_count = clist_initializer_count * 16,
      clist = (\<lambda>i. zero_entry), realloc_answers = answers, realloc_calls = 0,
      log_lines = []\<rparr>"

section \<open>Name decoding (dns\_decode.c)\<close>

text \<open>
  The loop of \<open>dns_decode_name\<close>, with its local variables as arguments. The result
  is the returned offset (0 for failure), the name as the loop has left it, and the log
  line of the failure (the locals \<open>name_offset\<close> and \<open>pointer\<close> are \<open>name_offset0\<close> and
  \<open>ptr\<close>, as the two names are fields of records here). The two reads of the packet buffer that no check of the loop
  precedes are results of their own when they leave the 9000 bytes of the buffer.
\<close>

function dns_decode_name_loop ::
  "packet \<Rightarrow> nat \<Rightarrow> nat \<Rightarrow> bool \<Rightarrow> nat \<Rightarrow> nat \<Rightarrow> dns_name
     \<Rightarrow> fault + (nat \<times> dns_name \<times> log_entry list)" where
  "dns_decode_name_loop pkt packet_offset label_offset compressed name_offset0 label_count nm =
     (if MDNS_MAX_PACKET_SIZE \<le> label_offset then Inl Out_of_bounds
      else let label_len = buffer pkt label_offset in
      if IS_LABEL_POINTER label_len then
        (if MDNS_MAX_PACKET_SIZE \<le> label_offset + 1 then Inl Out_of_bounds
         else let ptr = POINTER_OFFSET label_len (buffer pkt (label_offset + 1)) in
           if ptr < sizeof_dns_header \<or> ptr \<ge> label_offset
           then Inr (0, nm, [Packet_error ''bad label pointer in a name'' []])
           else dns_decode_name_loop pkt (if \<not> compressed then packet_offset + 2 else packet_offset)
                  ptr True name_offset0 label_count nm)
      else
        let nm1 = nm\<lparr>name_offset := (name_offset nm)(label_count := name_offset0 mod 256)\<rparr>;
            label_count1 = label_count + 1
        in if label_count1 > MAX_NUM_LABELS
           then Inr (0, nm1, [Packet_error ''too many labels in a name'' []])
           else if unat label_len = 0
           then Inr (if \<not> compressed then packet_offset + 1 else packet_offset,
                     nm1\<lparr>name_labels := (name_labels nm1)(name_offset0 := 0),
                         name_length := (name_offset0 + 1) mod 65536,
                         name_count := label_count1 mod 256\<rparr>, [])
           else let copy_len = unat label_len + 1 in
             if label_offset + copy_len + 1 > bytes pkt \<or>
                name_offset0 + copy_len + 1 > DNS_MAX_NAME_LEN
             then Inr (0, nm1, [Packet_error ''name overrun'' []])
             else dns_decode_name_loop pkt
                    (if \<not> compressed then packet_offset + copy_len else packet_offset)
                    (label_offset + copy_len) compressed (name_offset0 + copy_len) label_count1
                    (nm1\<lparr>name_labels :=
                           memcpy (name_labels nm1) name_offset0 (buffer pkt) label_offset copy_len\<rparr>))"
  by pat_completeness auto
termination
  by (relation "measures [\<lambda>(pkt, po, lo, c, no, lc, nm). Suc MAX_NUM_LABELS - lc,
                          \<lambda>(pkt, po, lo, c, no, lc, nm). lo]")
     (auto simp: MAX_NUM_LABELS_def)

declare dns_decode_name_loop.simps [simp del]

definition dns_decode_name ::
  "packet \<Rightarrow> nat \<Rightarrow> dns_name \<Rightarrow> fault + (nat \<times> dns_name \<times> log_entry list)" where
  "dns_decode_name pkt packet_offset nm =
     dns_decode_name_loop pkt packet_offset packet_offset False 0 0 nm"

section \<open>Packet decoding (dns\_decode.c)\<close>

text \<open>
  \<open>dns_decode_header\<close>. The received packet has at most 9000 bytes (\<open>recvfrom\<close> is
  given the size of the buffer), so the reads that follow a length check of the packet
  decoder stay inside the buffer.
\<close>

definition dns_decode_header :: "dns_state \<Rightarrow> packet \<Rightarrow> nat \<times> dns_state" where
  "dns_decode_header st pkt =
     (if bytes pkt < sizeof_dns_header
      then (0, logged st [Packet_error ''dns_decode_header: packet too small'' []])
      else
        let st1 = st\<lparr>recv_query_count := get16 (buffer pkt) 4,
                      recv_rr_count := (recv_rr_count st)
                        (RR_ANSWER := get16 (buffer pkt) 6,
                         RR_AUTHORITY := get16 (buffer pkt) 8,
                         RR_ADDITIONAL := get16 (buffer pkt) 10)\<rparr>
        in if recv_query_count st1 > allocated_query_count st1 \<and>
              recv_query_count st1 > MAX_QUERY_COUNT
           then (0, logged st1 [Packet_error ''too many queries (%u)'' [U (recv_query_count st1)]])
           else if recv_query_count st1 > allocated_query_count st1 \<and> \<not> realloc_ok st1
           then (0, logged (realloc_called st1) [Logger ''Cannot allocate memory: %s'' []])
           else
             let st2 = (if recv_query_count st1 > allocated_query_count st1
                        then (realloc_called st1)\<lparr>allocated_query_count := recv_query_count st1\<rparr>
                        else st1);
                 total = recv_rr_count st2 RR_ANSWER + recv_rr_count st2 RR_AUTHORITY +
                         recv_rr_count st2 RR_ADDITIONAL
             in if total > allocated_rr_count st2 \<and> total > MAX_RESOURCE_COUNT
                then (0, logged st2 [Packet_error ''too many resource records (%u)'' [U total]])
                else if total > allocated_rr_count st2 \<and> \<not> realloc_ok st2
                then (0, logged (realloc_called st2) [Logger ''Cannot allocate memory: %s'' []])
                else (sizeof_dns_header,
                      if total > allocated_rr_count st2
                      then (realloc_called st2)\<lparr>allocated_rr_count := total\<rparr> else st2))"

text \<open>
  \<open>dns_labels_to_string\<close>: the string it builds, or \<open>fatal\<close> when a label runs past
  the given length.
\<close>

function dns_labels_to_string_loop ::
  "bytes \<Rightarrow> nat \<Rightarrow> nat \<Rightarrow> byte list \<Rightarrow> fault + byte list" where
  "dns_labels_to_string_loop labels len labels_offset string =
     (if labels_offset < len then
        (let label_len = unat (labels labels_offset) in
         if label_len = 0 then Inr string
         else if labels_offset + 1 + label_len > len then Inl Fatal_exit
         else dns_labels_to_string_loop labels len (labels_offset + 1 + label_len)
                ((if string \<noteq> [] then string @ [0x2E] else string) @
                 region labels (labels_offset + 1) label_len))
      else Inr string)"
  by pat_completeness auto
termination
  by (relation "measure (\<lambda>(labels, len, off, s). len - off)") auto

declare dns_labels_to_string_loop.simps [simp del]

definition dns_labels_to_string :: "bytes \<Rightarrow> nat \<Rightarrow> fault + byte list" where
  "dns_labels_to_string labels len =
     dns_labels_to_string_loop labels (if len = 0 then unat (labels 0) + 1 else len) 0 []"

text \<open>What \<open>%s\<close> prints of the label array of a name: the bytes before the first zero.\<close>

definition c_string :: "bytes \<Rightarrow> byte list" where
  "c_string b = takeWhile (\<lambda>x. x \<noteq> 0) (region b 0 DNS_MAX_NAME_LEN)"

text \<open>The source filter switch of \<open>dns_decode_queries\<close>; \<open>None\<close> is its default case.\<close>

definition decode_query_allowed ::
  "filter_list option \<Rightarrow> 'a interface_scheme \<Rightarrow> dns_query \<Rightarrow> bool option" where
  "decode_query_allowed gfl iface query =
     (if q_type query = DNS_TYPE_SRV \<or> q_type query = DNS_TYPE_TXT \<or>
         q_type query = DNS_TYPE_SVCB \<or> q_type query = DNS_TYPE_HTTPS \<or>
         q_type query = DNS_TYPE_ANY
      then Some (allowed_inbound gfl iface (q_name query))
      else if q_type query = DNS_TYPE_A \<or> q_type query = DNS_TYPE_AAAA \<or>
              q_type query = DNS_TYPE_PTR \<or> q_type query = DNS_TYPE_OPT
      then Some True
      else None)"

text \<open>One round of the loop of \<open>dns_decode_queries\<close>; the global filter list is an
  argument.\<close>

definition dns_decode_query ::
  "filter_list option \<Rightarrow> 'a interface_scheme \<Rightarrow> packet \<Rightarrow> dns_state \<Rightarrow> nat
     \<Rightarrow> fault + (nat \<times> dns_state)" where
  "dns_decode_query gfl iface pkt st packet_offset =
     (let qi = query_count st; query = query_list st qi in
      case dns_decode_name pkt packet_offset (q_name query) of
        Inl f \<Rightarrow> Inl f
      | Inr (off, nm, lg) \<Rightarrow>
          let query1 = query\<lparr>q_name := nm\<rparr>; st0 = logged st lg in
          if off = 0 then Inr (0, st0\<lparr>query_list := (query_list st0)(qi := query1)\<rparr>)
          else
            let query2 = query1\<lparr>q_data := off\<rparr> in
            if off + sizeof_dns_query_header > bytes pkt
            then Inr (0, logged (st0\<lparr>query_list := (query_list st0)(qi := query2)\<rparr>)
                           [Packet_error ''malformed query'' []])
            else
              let query3 = query2\<lparr>q_type := get16 (buffer pkt) off\<rparr>;
                  off1 = off + sizeof_dns_query_header;
                  st1 = st0\<lparr>query_list := (query_list st0)(qi := query3)\<rparr>
              in case decode_query_allowed gfl iface query3 of
                   Some allowed \<Rightarrow>
                     Inr (off1, if allowed then st1\<lparr>query_count := query_count st1 + 1\<rparr> else st1)
                 | None \<Rightarrow>
                     (case dns_labels_to_string (name_labels nm) (name_length nm) of
                        Inl f \<Rightarrow> Inl f
                      | Inr string \<Rightarrow>
                          Inr (off1, logged st1
                                 [Packet_error ''unsupported query type %d (dropped)''
                                    [U (q_type query3)],
                                  Logger ''(name %s)'' [B (c_string (name_labels nm))]])))"

fun dns_decode_queries ::
  "filter_list option \<Rightarrow> 'a interface_scheme \<Rightarrow> packet \<Rightarrow> nat \<Rightarrow> dns_state \<Rightarrow> nat
     \<Rightarrow> fault + (nat \<times> dns_state)" where
  "dns_decode_queries gfl iface pkt 0 st packet_offset = Inr (packet_offset, st)"
| "dns_decode_queries gfl iface pkt (Suc n) st packet_offset =
     (case dns_decode_query gfl iface pkt st packet_offset of
        Inl f \<Rightarrow> Inl f
      | Inr (off, st1) \<Rightarrow>
          if off = 0 then Inr (0, st1)
          else dns_decode_queries gfl iface pkt n st1 off)"

text \<open>The source filter switch of \<open>dns_decode_rrs\<close>: what a record of a type is
  filtered on.\<close>

datatype rr_filter_input = Owner_name | Rdata_name | Not_filtered | Unsupported

definition decode_rr_filter_input :: "nat \<Rightarrow> rr_filter_input" where
  "decode_rr_filter_input t =
     (if t = DNS_TYPE_SRV \<or> t = DNS_TYPE_TXT \<or> t = DNS_TYPE_HINFO \<or>
         t = DNS_TYPE_SVCB \<or> t = DNS_TYPE_HTTPS then Owner_name
      else if t = DNS_TYPE_PTR \<or> t = DNS_TYPE_CNAME \<or> t = DNS_TYPE_DNAME then Rdata_name
      else if t = DNS_TYPE_A \<or> t = DNS_TYPE_AAAA \<or> t = DNS_TYPE_OPT \<or> t = DNS_TYPE_NSEC
      then Not_filtered
      else Unsupported)"

text \<open>
  The first switch of the loop of \<open>dns_decode_rrs\<close>: whether the record is allowed.
  The first component of the result is false where the code returns 0.
\<close>

definition decode_rr_allowed ::
  "filter_list option \<Rightarrow> 'a interface_scheme \<Rightarrow> packet \<Rightarrow> nat \<Rightarrow> nat \<Rightarrow> nat \<Rightarrow> dns_rr
     \<Rightarrow> fault + (bool \<times> bool \<times> dns_rr \<times> log_entry list)" where
  "decode_rr_allowed gfl iface pkt section_type packet_offset data_len rr =
     (case decode_rr_filter_input (rr_type rr) of
        Owner_name \<Rightarrow> Inr (True, allowed_inbound gfl iface (rr_name rr), rr, [])
      | Rdata_name \<Rightarrow>
          (case dns_decode_name pkt packet_offset (rr_rdata_name rr) of
             Inl f \<Rightarrow> Inl f
           | Inr (tmp_offset, nm, lg) \<Rightarrow>
               if tmp_offset \<noteq> packet_offset + data_len
               then Inr (False, False, rr\<lparr>rr_rdata_name := nm\<rparr>,
                         lg @ [Packet_error ''rdata ptr name corruption in %s record''
                                 [S (rr_section_name section_type)]])
               else Inr (True, allowed_inbound gfl iface nm, rr\<lparr>rr_rdata_name := nm\<rparr>, lg))
      | Not_filtered \<Rightarrow> Inr (True, True, rr, [])
      | Unsupported \<Rightarrow>
          (case dns_labels_to_string (name_labels (rr_name rr)) (name_length (rr_name rr)) of
             Inl f \<Rightarrow> Inl f
           | Inr string \<Rightarrow>
               Inr (True, False, rr,
                    [Packet_error ''unsupported type %d in %s record (dropped)''
                       [U (rr_type rr), S (rr_section_name section_type)],
                     Logger ''(name %s, data len %u)''
                       [B (c_string (name_labels (rr_name rr))), U data_len]])))"

text \<open>
  The second switch of the loop, for an allowed record: the name in the RDATA of SRV
  and NSEC. The first component of the result is false where the code returns 0. The
  \<open>uint16_t\<close> field \<open>secondary_len\<close> of NSEC is computed on \<open>unsigned int\<close>.
\<close>

definition decode_rr_secondary ::
  "packet \<Rightarrow> nat \<Rightarrow> nat \<Rightarrow> nat \<Rightarrow> dns_rr \<Rightarrow> fault + (bool \<times> dns_rr \<times> log_entry list)" where
  "decode_rr_secondary pkt section_type packet_offset data_len rr =
     (if rr_type rr = DNS_TYPE_SRV then
        (let rr1 = rr\<lparr>rr_secondary_len := sizeof_dns_rr_srv_data\<rparr> in
         case dns_decode_name pkt (packet_offset + rr_secondary_len rr1) (rr_rdata_name rr1) of
           Inl f \<Rightarrow> Inl f
         | Inr (tmp_offset, nm, lg) \<Rightarrow>
             if tmp_offset \<noteq> packet_offset + data_len
             then Inr (False, rr1\<lparr>rr_rdata_name := nm\<rparr>,
                       lg @ [Packet_error ''rdata srv name corruption in %s record''
                               [S (rr_section_name section_type)]])
             else Inr (True, rr1\<lparr>rr_rdata_name := nm\<rparr>, lg))
      else if rr_type rr = DNS_TYPE_NSEC then
        (case dns_decode_name pkt packet_offset (rr_rdata_name rr) of
           Inl f \<Rightarrow> Inl f
         | Inr (tmp_offset, nm, lg) \<Rightarrow>
             if tmp_offset > packet_offset + data_len
             then Inr (False, rr\<lparr>rr_rdata_name := nm\<rparr>,
                       lg @ [Packet_error ''rdata nsec data name corruption in %s record''
                               [S (rr_section_name section_type)]])
             else Inr (True,
                       rr\<lparr>rr_rdata_name := nm,
                          rr_secondary_len :=
                            ((data_len + 2 ^ 32 -
                               ((tmp_offset + 2 ^ 32 - packet_offset) mod 2 ^ 32)) mod 2 ^ 32)
                            mod 2 ^ 16\<rparr>, lg))
      else Inr (True, rr, []))"

text \<open>One round of the loop of \<open>dns_decode_rrs\<close>.\<close>

definition dns_decode_rr ::
  "filter_list option \<Rightarrow> 'a interface_scheme \<Rightarrow> packet \<Rightarrow> nat \<Rightarrow> dns_state \<Rightarrow> nat
     \<Rightarrow> fault + (nat \<times> dns_state)" where
  "dns_decode_rr gfl iface pkt section_type st packet_offset =
     (let ri = total_rr_count st; rr = rr_list st ri in
      case dns_decode_name pkt packet_offset (rr_name rr) of
        Inl f \<Rightarrow> Inl f
      | Inr (off, nm, lg) \<Rightarrow>
          let rr1 = rr\<lparr>rr_name := nm\<rparr>; st0 = logged st lg in
          if off = 0 then Inr (0, st0\<lparr>rr_list := (rr_list st0)(ri := rr1)\<rparr>)
          else if off + sizeof_dns_rr_header > bytes pkt
          then Inr (0, logged (st0\<lparr>rr_list := (rr_list st0)(ri := rr1)\<rparr>)
                         [Packet_error ''malformed %s record'' [S (rr_section_name section_type)]])
          else
            let off1 = off + sizeof_dns_rr_header;
                rr2 = rr1\<lparr>rr_data := off, rr_type := get16 (buffer pkt) off\<rparr>;
                data_len = get16 (buffer pkt) (off + 8)
            in if data_len = 0 \<or> off1 + data_len > bytes pkt
               then Inr (0, logged (st0\<lparr>rr_list := (rr_list st0)(ri := rr2)\<rparr>)
                              [Packet_error ''invalid rdata length in %s record''
                                 [S (rr_section_name section_type)]])
               else
                 (case decode_rr_allowed gfl iface pkt section_type off1 data_len rr2 of
                    Inl f \<Rightarrow> Inl f
                  | Inr (ok, allowed, rr3, lg1) \<Rightarrow>
                      let st1 = logged st0 lg1 in
                      if \<not> ok then Inr (0, st1\<lparr>rr_list := (rr_list st1)(ri := rr3)\<rparr>)
                      else if \<not> allowed
                      then Inr (off1 + data_len, st1\<lparr>rr_list := (rr_list st1)(ri := rr3)\<rparr>)
                      else
                        (case decode_rr_secondary pkt section_type off1 data_len rr3 of
                           Inl f \<Rightarrow> Inl f
                         | Inr (ok2, rr4, lg2) \<Rightarrow>
                             let st2 = (logged st1 lg2)\<lparr>rr_list := (rr_list st1)(ri := rr4)\<rparr> in
                             if \<not> ok2 then Inr (0, st2)
                             else Inr (off1 + data_len,
                                       st2\<lparr>rr_count := (rr_count st2)
                                              (section_type := rr_count st2 section_type + 1),
                                           total_rr_count := total_rr_count st2 + 1\<rparr>))))"

fun dns_decode_rrs_loop ::
  "filter_list option \<Rightarrow> 'a interface_scheme \<Rightarrow> packet \<Rightarrow> nat \<Rightarrow> nat \<Rightarrow> dns_state \<Rightarrow> nat
     \<Rightarrow> fault + (nat \<times> dns_state)" where
  "dns_decode_rrs_loop gfl iface pkt section_type 0 st packet_offset = Inr (packet_offset, st)"
| "dns_decode_rrs_loop gfl iface pkt section_type (Suc n) st packet_offset =
     (case dns_decode_rr gfl iface pkt section_type st packet_offset of
        Inl f \<Rightarrow> Inl f
      | Inr (off, st1) \<Rightarrow>
          if off = 0 then Inr (0, st1)
          else dns_decode_rrs_loop gfl iface pkt section_type n st1 off)"

definition dns_decode_rrs ::
  "filter_list option \<Rightarrow> 'a interface_scheme \<Rightarrow> packet \<Rightarrow> nat \<Rightarrow> nat \<Rightarrow> dns_state \<Rightarrow> nat
     \<Rightarrow> fault + (nat \<times> dns_state)" where
  "dns_decode_rrs gfl iface pkt section_type count st packet_offset =
     dns_decode_rrs_loop gfl iface pkt section_type count
       (st\<lparr>rr_index := (rr_index st)(section_type := total_rr_count st)\<rparr>) packet_offset"

text \<open>The loop of \<open>dns_decode_packet\<close> over the three sections, from section \<open>t\<close> on.\<close>

function dns_decode_sections ::
  "filter_list option \<Rightarrow> 'a interface_scheme \<Rightarrow> packet \<Rightarrow> nat \<Rightarrow> dns_state \<Rightarrow> nat
     \<Rightarrow> fault + (nat \<times> dns_state)" where
  "dns_decode_sections gfl iface pkt t st packet_offset =
     (if t < NUM_RR_SECTION_TYPES then
        (if packet_offset \<noteq> 0 \<and> recv_rr_count st t \<noteq> 0 then
           (case dns_decode_rrs gfl iface pkt t (recv_rr_count st t) st packet_offset of
              Inl f \<Rightarrow> Inl f
            | Inr (off, st1) \<Rightarrow> dns_decode_sections gfl iface pkt (t + 1) st1 off)
         else dns_decode_sections gfl iface pkt (t + 1) st packet_offset)
      else Inr (packet_offset, st))"
  by pat_completeness auto
termination
  by (relation "measure (\<lambda>(gfl, iface, pkt, t, st, off). NUM_RR_SECTION_TYPES - t)") auto

declare dns_decode_sections.simps [simp del]

text \<open>\<open>dns_decode_packet\<close>: the returned value (0 for a dropped packet) and the state.\<close>

definition dns_decode_packet ::
  "filter_list option \<Rightarrow> dns_state \<Rightarrow> packet \<Rightarrow> 'a interface_scheme
     \<Rightarrow> fault + (nat \<times> dns_state)" where
  "dns_decode_packet gfl st pkt iface =
     (let st0 = st\<lparr>query_count := 0,
                     rr_count := (rr_count st)(RR_ANSWER := 0, RR_AUTHORITY := 0, RR_ADDITIONAL := 0),
                     total_rr_count := 0\<rparr>
      in case dns_decode_header st0 pkt of (off0, st1) \<Rightarrow>
        (case (if off0 \<noteq> 0 \<and> recv_query_count st1 \<noteq> 0
               then dns_decode_queries gfl iface pkt (recv_query_count st1) st1 off0
               else Inr (off0, st1)) of
           Inl f \<Rightarrow> Inl f
         | Inr (off1, st2) \<Rightarrow>
             (case dns_decode_sections gfl iface pkt 0 st2 off1 of
                Inl f \<Rightarrow> Inl f
              | Inr (off2, st3) \<Rightarrow>
                  if off2 \<noteq> bytes pkt
                  then Inr (0, logged st3
                                 [Packet_error ''decoded length (%u) != packet length (%u)''
                                    [U off2, U (bytes pkt)]])
                  else if query_count st3 = 0 \<and> rr_count st3 RR_ANSWER = 0 \<and>
                          rr_count st3 RR_AUTHORITY = 0 \<and> rr_count st3 RR_ADDITIONAL = 0
                  then Inr (0, st3)
                  else Inr (off2, st3))))"

section \<open>The compression list (dns\_encode.c)\<close>

definition local_label :: "byte list" where
  "local_label = [0x05, 0x6c, 0x6f, 0x63, 0x61, 0x6c]"

definition tcp_label :: "byte list" where
  "tcp_label = [0x04, 0x5f, 0x74, 0x63, 0x70]"

definition clist_initializer :: "nat \<Rightarrow> compression_entry" where
  "clist_initializer i =
     (if i = 0 then \<lparr>label = None, child_index = 1, child_allocated = 1, child_used = 1,
                     pointer = 0\<rparr>
      else if i = 1 then \<lparr>label = Some (bytes_of local_label), child_index = 2,
                          child_allocated = 2, child_used = 1, pointer = 0\<rparr>
      else if i = 2 then \<lparr>label = Some (bytes_of tcp_label), child_index = 4,
                          child_allocated = 4, child_used = 0, pointer = 0\<rparr>
      else zero_entry)"

text \<open>\<open>clist_reset\<close>: zero the entries in use after the initializer, copy the initializer.\<close>

definition clist_reset :: "dns_state \<Rightarrow> dns_state" where
  "clist_reset st =
     st\<lparr>clist := (\<lambda>i. if i < clist_initializer_count then clist_initializer i
                       else if i < used_clist_count st then zero_entry
                       else clist st i),
        used_clist_count := clist_initializer_count\<rparr>"

text \<open>\<open>clist_expand\<close>: false where the code returns \<open>NULL\<close>.\<close>

definition clist_expand :: "dns_state \<Rightarrow> nat \<Rightarrow> bool \<times> dns_state" where
  "clist_expand st count =
     (if \<not> realloc_ok st
      then (False, logged (realloc_called st)
                     [Logger ''Cannot allocate memory to expand compression list: %s'' []])
      else (True, (realloc_called st)
                    \<lparr>clist := (\<lambda>i. if allocated_clist_count st \<le> i \<and>
                                       i < allocated_clist_count st + count
                                    then zero_entry else clist st i),
                     allocated_clist_count := allocated_clist_count st + count\<rparr>))"

text \<open>
  \<open>clist_open\<close>: the returned index, 0 where the expansion has failed. The first
  function is the loop that updates the child indexes (a \<open>uint16_t\<close> each), the second
  the \<open>memmove\<close> and the \<open>memset\<close>.
\<close>

definition update_child_indexes ::
  "nat \<Rightarrow> nat \<Rightarrow> nat \<Rightarrow> (nat \<Rightarrow> compression_entry) \<Rightarrow> (nat \<Rightarrow> compression_entry)" where
  "update_child_indexes used index count c =
     (\<lambda>i. if i < used \<and> child_index (c i) \<ge> index
          then (c i)\<lparr>child_index := (child_index (c i) + count) mod 2 ^ 16\<rparr> else c i)"

definition open_space ::
  "nat \<Rightarrow> nat \<Rightarrow> nat \<Rightarrow> (nat \<Rightarrow> compression_entry) \<Rightarrow> (nat \<Rightarrow> compression_entry)" where
  "open_space used index count c =
     (\<lambda>i. if i < index then c i
          else if i < index + count then zero_entry
          else if i < used + count then c (i - count)
          else c i)"

definition clist_open :: "dns_state \<Rightarrow> nat \<Rightarrow> nat \<Rightarrow> nat \<times> dns_state" where
  "clist_open st index count =
     (case (if used_clist_count st + count \<ge> allocated_clist_count st
            then clist_expand st count else (True, st)) of
        (False, st1) \<Rightarrow> (0, st1)
      | (True, st1) \<Rightarrow>
          let st2 = (if index < used_clist_count st1
                     then st1\<lparr>clist := open_space (used_clist_count st1) index count
                                        (update_child_indexes (used_clist_count st1) index count
                                           (clist st1))\<rparr>
                     else st1)
          in (index, st2\<lparr>used_clist_count := used_clist_count st2 + count\<rparr>))"

text \<open>
  The search loop of \<open>clist_get_child\<close> over the children of the parent: the index of
  the first child with the same label. The comparison reads the label of the entry,
  which must not be null.
\<close>

definition label_equal :: "bytes \<Rightarrow> bytes \<Rightarrow> bool" where
  "label_equal l e = (l 0 = e 0 \<and> region l 1 (unat (l 0)) = region e 1 (unat (l 0)))"

fun clist_find_child ::
  "(nat \<Rightarrow> compression_entry) \<Rightarrow> bytes \<Rightarrow> nat \<Rightarrow> nat \<Rightarrow> fault + nat option" where
  "clist_find_child c l index 0 = Inr None"
| "clist_find_child c l index (Suc n) =
     (case label (c index) of
        None \<Rightarrow> Inl Null_pointer
      | Some e \<Rightarrow> if label_equal l e then Inr (Some index)
                  else clist_find_child c l (index + 1) n)"

text \<open>\<open>clist_get_child\<close>: the index of the child, 0 where \<open>clist_open\<close> has failed.\<close>

definition clist_add_child :: "dns_state \<Rightarrow> nat \<Rightarrow> nat \<Rightarrow> bytes \<Rightarrow> nat \<times> dns_state" where
  "clist_add_child st parent index l =
     (let p = clist st parent;
          st1 = st\<lparr>clist := (clist st)(parent := p\<lparr>child_used := (child_used p + 1) mod 2 ^ 16\<rparr>)\<rparr>
      in (index, st1\<lparr>clist := (clist st1)(index := (clist st1 index)\<lparr>label := Some l\<rparr>)\<rparr>))"

definition clist_get_child :: "dns_state \<Rightarrow> nat \<Rightarrow> bytes \<Rightarrow> fault + (nat \<times> dns_state)" where
  "clist_get_child st parent l =
     (case clist_find_child (clist st) l (child_index (clist st parent))
             (child_used (clist st parent)) of
        Inl f \<Rightarrow> Inl f
      | Inr (Some index) \<Rightarrow> Inr (index, st)
      | Inr None \<Rightarrow>
          let st1 = (if child_allocated (clist st parent) = 0
                     then st\<lparr>clist := (clist st)
                            (parent := (clist st parent)
                               \<lparr>child_index := used_clist_count st mod 2 ^ 16\<rparr>)\<rparr>
                     else st);
              p = clist st1 parent;
              index = child_index p + child_used p
          in if child_used p \<ge> child_allocated p then
               (let count = (if child_allocated p \<noteq> 0 then child_allocated p else 1) in
                case clist_open st1 index count of (index1, st2) \<Rightarrow>
                  if index1 = 0 then Inr (0, st2)
                  else Inr (clist_add_child
                         (st2\<lparr>clist := (clist st2)
                            (parent := (clist st2 parent)
                               \<lparr>child_allocated :=
                                  (child_allocated (clist st2 parent) + count) mod 2 ^ 16\<rparr>)\<rparr>)
                         parent index1 l))
             else Inr (clist_add_child st1 parent index l))"

section \<open>Name encoding (dns\_encode.c)\<close>

text \<open>
  Writes to the buffer of the packet to send; the code checks none of them against
  the 9000 bytes of the buffer.
\<close>

definition buf_put :: "bytes \<Rightarrow> nat \<Rightarrow> byte list \<Rightarrow> fault + bytes" where
  "buf_put b off xs =
     (if off + length xs > MDNS_MAX_PACKET_SIZE then Inl Out_of_bounds
      else Inr (\<lambda>i. if off \<le> i \<and> i < off + length xs then xs ! (i - off) else b i))"

text \<open>The two bytes of a \<open>uint16_t\<close> in network byte order.\<close>

definition bytes16 :: "nat \<Rightarrow> byte list" where
  "bytes16 v = [of_nat (v div 256), of_nat v]"

text \<open>The label pointer \<open>name->labels + name->offset[name_index]\<close>.\<close>

definition label_at :: "dns_name \<Rightarrow> nat \<Rightarrow> bytes" where
  "label_at nm name_index = (\<lambda>i. name_labels nm (name_offset nm name_index + i))"

text \<open>
  The first loop of \<open>dns_encode_name\<close> (its local \<open>child_index\<close> is \<open>child\<close> here,
  \<open>child_index\<close> being a field). It is entered with \<open>remaining > 0\<close> and each
  round that does not leave the function or the loop ends with \<open>remaining > 0\<close>, so
  the loop condition holds whenever it is tested. The three ways the loop ends: a
  failed allocation, a name that is all in the packet already, and a label that is not.
\<close>

datatype search_result =
    Search_failed dns_state
  | Search_duplicate dns_state nat
  | Search_new dns_state nat nat nat

function encode_name_search ::
  "dns_name \<Rightarrow> dns_state \<Rightarrow> nat \<Rightarrow> nat \<Rightarrow> fault + search_result" where
  "encode_name_search nm st parent_index remaining =
     (let remaining1 = remaining - 1;
          name_index = remaining1
      in case clist_get_child st parent_index (label_at nm name_index) of
           Inl f \<Rightarrow> Inl f
         | Inr (child, st1) \<Rightarrow>
             if child = 0 then Inr (Search_failed st1)
             else if pointer (clist st1 child) = 0
             then Inr (Search_new st1 parent_index child remaining1)
             else if remaining1 \<le> 0 then Inr (Search_duplicate st1 child)
             else encode_name_search nm st1 child remaining1)"
  by pat_completeness auto
termination
  by (relation "measure (\<lambda>(nm, st, parent_index, remaining). remaining)") auto

declare encode_name_search.simps [simp del]

text \<open>
  The second loop: the labels before the current one are added below it, each with
  its pointer. \<open>None\<close> where the code returns 0.
\<close>

fun encode_name_add ::
  "dns_name \<Rightarrow> nat \<Rightarrow> dns_state \<Rightarrow> nat \<Rightarrow> nat \<Rightarrow> fault + (bool \<times> dns_state)" where
  "encode_name_add nm packet_offset st child 0 = Inr (True, st)"
| "encode_name_add nm packet_offset st child (Suc remaining) =
     (case clist_get_child st child (label_at nm remaining) of
        Inl f \<Rightarrow> Inl f
      | Inr (child1, st1) \<Rightarrow>
          if child1 = 0 then Inr (False, st1)
          else encode_name_add nm packet_offset
                 (st1\<lparr>clist := (clist st1)
                    (child1 := (clist st1 child1)
                       \<lparr>pointer := OFFSET_TO_POINTER (packet_offset + name_offset nm remaining)\<rparr>)\<rparr>)
                 child1 remaining)"

text \<open>
  \<open>dns_encode_name\<close>: the returned offset (0 for a failed allocation), the state and
  the buffer of the packet to send.
\<close>

definition dns_encode_name ::
  "dns_state \<Rightarrow> bytes \<Rightarrow> nat \<Rightarrow> dns_name \<Rightarrow> fault + (nat \<times> dns_state \<times> bytes)" where
  "dns_encode_name st send_buffer packet_offset nm =
     (if name_count nm \<le> 1 then
        (case buf_put send_buffer packet_offset [0] of
           Inl f \<Rightarrow> Inl f
         | Inr b \<Rightarrow> Inr (packet_offset + 1, st, b))
      else
        case encode_name_search nm st 0 (name_count nm - 1) of
          Inl f \<Rightarrow> Inl f
        | Inr (Search_failed st1) \<Rightarrow> Inr (0, st1, send_buffer)
        | Inr (Search_duplicate st1 child) \<Rightarrow>
            (case buf_put send_buffer packet_offset (bytes16 (pointer (clist st1 child))) of
               Inl f \<Rightarrow> Inl f
             | Inr b \<Rightarrow> Inr (packet_offset + 2, st1, b))
        | Inr (Search_new st1 parent_index child remaining) \<Rightarrow>
            let ancestor_index = parent_index;
                name_index = remaining
            in case (if used_clist_count st1 + remaining > allocated_clist_count st1
                     then clist_expand st1 remaining else (True, st1)) of
                 (False, st2) \<Rightarrow> Inr (0, st2, send_buffer)
               | (True, st2) \<Rightarrow>
                   let copy_len = name_offset nm name_index + unat (label_at nm name_index 0) + 1 in
                   if copy_len > DNS_MAX_NAME_LEN then Inl Out_of_bounds
                   else case buf_put send_buffer packet_offset (region (name_labels nm) 0 copy_len) of
                     Inl f \<Rightarrow> Inl f
                   | Inr b1 \<Rightarrow>
                       let st3 = st2\<lparr>clist := (clist st2)
                                   (child := (clist st2 child)
                                      \<lparr>pointer := OFFSET_TO_POINTER
                                                    (packet_offset + name_offset nm name_index)\<rparr>)\<rparr>
                       in case encode_name_add nm packet_offset st3 child remaining of
                            Inl f \<Rightarrow> Inl f
                          | Inr (False, st4) \<Rightarrow> Inr (0, st4, b1)
                          | Inr (True, st4) \<Rightarrow>
                              let packet_offset1 = packet_offset + copy_len in
                              if pointer (clist st4 ancestor_index) \<noteq> 0 then
                                (case buf_put b1 packet_offset1
                                        (bytes16 (pointer (clist st4 ancestor_index))) of
                                   Inl f \<Rightarrow> Inl f
                                 | Inr b2 \<Rightarrow> Inr (packet_offset1 + 2, st4, b2))
                              else
                                (case buf_put b1 packet_offset1 [0] of
                                   Inl f \<Rightarrow> Inl f
                                 | Inr b2 \<Rightarrow> Inr (packet_offset1 + 1, st4, b2)))"

section \<open>Packet encoding (dns\_encode.c)\<close>

text \<open>
  A copy from the buffer of the received packet into the buffer of the packet to send;
  the code checks neither side against the 9000 bytes of the buffers.
\<close>

definition buf_copy :: "bytes \<Rightarrow> nat \<Rightarrow> bytes \<Rightarrow> nat \<Rightarrow> nat \<Rightarrow> fault + bytes" where
  "buf_copy dst doff src soff n =
     (if doff + n > MDNS_MAX_PACKET_SIZE \<or> soff + n > MDNS_MAX_PACKET_SIZE
      then Inl Out_of_bounds
      else Inr (memcpy dst doff src soff n))"

text \<open>The outbound filter switch of \<open>dns_encode_queries\<close>.\<close>

definition encode_query_allowed :: "filter_list option \<Rightarrow> dns_query \<Rightarrow> bool" where
  "encode_query_allowed fl query =
     (if q_type query = DNS_TYPE_SRV \<or> q_type query = DNS_TYPE_TXT \<or>
         q_type query = DNS_TYPE_ANY
      then allowed_outbound fl (q_name query)
      else True)"

text \<open>
  One round of the loop of \<open>dns_encode_queries\<close>, on the state, the buffer of the
  packet to send, the packet offset and the count of allowed queries. The value
  \<open>dns_encode_name\<close> returns is the new offset, also where it is 0. \<open>query->data\<close>
  points into the buffer of the received packet, which is an argument here.
\<close>

definition dns_encode_query ::
  "filter_list option \<Rightarrow> bytes \<Rightarrow> dns_query \<Rightarrow> dns_state \<times> bytes \<times> nat \<times> nat
     \<Rightarrow> fault + (dns_state \<times> bytes \<times> nat \<times> nat)" where
  "dns_encode_query fl recv_buffer query acc =
     (case acc of (st, b, packet_offset, allowed_count) \<Rightarrow>
        if encode_query_allowed fl query then
          (case dns_encode_name st b packet_offset (q_name query) of
             Inl f \<Rightarrow> Inl f
           | Inr (off, st1, b1) \<Rightarrow>
               (case buf_copy b1 off recv_buffer (q_data query) sizeof_dns_query_header of
                  Inl f \<Rightarrow> Inl f
                | Inr b2 \<Rightarrow> Inr (st1, b2, off + sizeof_dns_query_header, allowed_count + 1)))
        else Inr acc)"

fun dns_encode_queries_loop ::
  "filter_list option \<Rightarrow> bytes \<Rightarrow> nat \<Rightarrow> nat \<Rightarrow> dns_state \<times> bytes \<times> nat \<times> nat
     \<Rightarrow> fault + (dns_state \<times> bytes \<times> nat \<times> nat)" where
  "dns_encode_queries_loop fl recv_buffer index 0 acc = Inr acc"
| "dns_encode_queries_loop fl recv_buffer index (Suc n) acc =
     (case dns_encode_query fl recv_buffer (query_list (fst acc) index) acc of
        Inl f \<Rightarrow> Inl f
      | Inr acc1 \<Rightarrow> dns_encode_queries_loop fl recv_buffer (index + 1) n acc1)"

definition dns_encode_queries ::
  "filter_list option \<Rightarrow> bytes \<Rightarrow> dns_state \<Rightarrow> bytes \<Rightarrow> nat
     \<Rightarrow> fault + (dns_state \<times> bytes \<times> nat \<times> nat)" where
  "dns_encode_queries fl recv_buffer st b packet_offset =
     dns_encode_queries_loop fl recv_buffer 0 (query_count st) (st, b, packet_offset, 0)"

text \<open>The outbound filter switch of \<open>dns_encode_rrs\<close>.\<close>

definition encode_rr_filter_input :: "nat \<Rightarrow> rr_filter_input" where
  "encode_rr_filter_input t =
     (if t = DNS_TYPE_SRV \<or> t = DNS_TYPE_TXT \<or> t = DNS_TYPE_HINFO then Owner_name
      else if t = DNS_TYPE_PTR \<or> t = DNS_TYPE_CNAME \<or> t = DNS_TYPE_DNAME then Rdata_name
      else Not_filtered)"

definition encode_rr_allowed :: "filter_list option \<Rightarrow> dns_rr \<Rightarrow> bool" where
  "encode_rr_allowed fl rr =
     (case encode_rr_filter_input (rr_type rr) of
        Owner_name \<Rightarrow> allowed_outbound fl (rr_name rr)
      | Rdata_name \<Rightarrow> allowed_outbound fl (rr_rdata_name rr)
      | _ \<Rightarrow> True)"

text \<open>
  The RDATA switch of \<open>dns_encode_rrs\<close>. For NSEC the source of the copy is
  \<open>rr->data + 10 + (ntohs(rdata_len) - secondary_len)\<close>, the difference an \<open>int\<close>.
\<close>

definition dns_encode_rdata ::
  "bytes \<Rightarrow> dns_rr \<Rightarrow> dns_state \<Rightarrow> bytes \<Rightarrow> nat \<Rightarrow> fault + (nat \<times> dns_state \<times> bytes)" where
  "dns_encode_rdata recv_buffer rr st b packet_offset =
     (if rr_type rr = DNS_TYPE_PTR \<or> rr_type rr = DNS_TYPE_CNAME \<or> rr_type rr = DNS_TYPE_DNAME
      then dns_encode_name st b packet_offset (rr_rdata_name rr)
      else if rr_type rr = DNS_TYPE_SRV then
        (case buf_copy b packet_offset recv_buffer (rr_data rr + sizeof_dns_rr_header)
                (rr_secondary_len rr) of
           Inl f \<Rightarrow> Inl f
         | Inr b1 \<Rightarrow> dns_encode_name st b1 (packet_offset + rr_secondary_len rr) (rr_rdata_name rr))
      else if rr_type rr = DNS_TYPE_NSEC then
        (case dns_encode_name st b packet_offset (rr_rdata_name rr) of
           Inl f \<Rightarrow> Inl f
         | Inr (off, st1, b1) \<Rightarrow>
             if rr_data rr + sizeof_dns_rr_header + get16 recv_buffer (rr_data rr + 8)
                  < rr_secondary_len rr
             then Inl Out_of_bounds
             else
               (case buf_copy b1 off recv_buffer
                       (rr_data rr + sizeof_dns_rr_header + get16 recv_buffer (rr_data rr + 8)
                          - rr_secondary_len rr)
                       (rr_secondary_len rr) of
                  Inl f \<Rightarrow> Inl f
                | Inr b2 \<Rightarrow> Inr (off + rr_secondary_len rr, st1, b2)))
      else
        (let len = get16 recv_buffer (rr_data rr + 8) in
         case buf_copy b packet_offset recv_buffer (rr_data rr + sizeof_dns_rr_header) len of
           Inl f \<Rightarrow> Inl f
         | Inr b1 \<Rightarrow> Inr (packet_offset + len, st, b1)))"

text \<open>
  One round of the loop of \<open>dns_encode_rrs\<close>: the owner name, the type, class and TTL
  of the header (8 bytes), the RDATA, and then the RDATA length, an \<open>unsigned int\<close>
  difference stored as \<open>uint16_t\<close>.
\<close>

definition dns_encode_rr ::
  "filter_list option \<Rightarrow> bytes \<Rightarrow> dns_rr \<Rightarrow> dns_state \<times> bytes \<times> nat \<times> nat
     \<Rightarrow> fault + (dns_state \<times> bytes \<times> nat \<times> nat)" where
  "dns_encode_rr fl recv_buffer rr acc =
     (case acc of (st, b, packet_offset, allowed_count) \<Rightarrow>
        if encode_rr_allowed fl rr then
          (case dns_encode_name st b packet_offset (rr_name rr) of
             Inl f \<Rightarrow> Inl f
           | Inr (off, st1, b1) \<Rightarrow>
               (case buf_copy b1 off recv_buffer (rr_data rr) 8 of
                  Inl f \<Rightarrow> Inl f
                | Inr b2 \<Rightarrow>
                    let rdata_offset = off + sizeof_dns_rr_header in
                    (case dns_encode_rdata recv_buffer rr st1 b2 rdata_offset of
                       Inl f \<Rightarrow> Inl f
                     | Inr (off1, st2, b3) \<Rightarrow>
                         (case buf_put b3 (off + 8)
                                 (bytes16 (((off1 + 2 ^ 32 - rdata_offset) mod 2 ^ 32) mod 2 ^ 16)) of
                            Inl f \<Rightarrow> Inl f
                          | Inr b4 \<Rightarrow> Inr (st2, b4, off1, allowed_count + 1)))))
        else Inr acc)"

fun dns_encode_rrs_loop ::
  "filter_list option \<Rightarrow> bytes \<Rightarrow> nat \<Rightarrow> nat \<Rightarrow> dns_state \<times> bytes \<times> nat \<times> nat
     \<Rightarrow> fault + (dns_state \<times> bytes \<times> nat \<times> nat)" where
  "dns_encode_rrs_loop fl recv_buffer index 0 acc = Inr acc"
| "dns_encode_rrs_loop fl recv_buffer index (Suc n) acc =
     (case dns_encode_rr fl recv_buffer (rr_list (fst acc) index) acc of
        Inl f \<Rightarrow> Inl f
      | Inr acc1 \<Rightarrow> dns_encode_rrs_loop fl recv_buffer (index + 1) n acc1)"

definition dns_encode_rrs ::
  "filter_list option \<Rightarrow> bytes \<Rightarrow> nat \<Rightarrow> dns_state \<Rightarrow> bytes \<Rightarrow> nat
     \<Rightarrow> fault + (dns_state \<times> bytes \<times> nat \<times> nat)" where
  "dns_encode_rrs fl recv_buffer section_type st b packet_offset =
     dns_encode_rrs_loop fl recv_buffer (rr_index st section_type) (rr_count st section_type)
       (st, b, packet_offset, 0)"

text \<open>
  \<open>dns_encode_packet\<close>: the returned value (0 when nothing is left to send), the
  state and the packet to send. The three sections are encoded one after the other.
\<close>

definition dns_encode_packet ::
  "dns_state \<Rightarrow> packet \<Rightarrow> packet \<Rightarrow> filter_list option \<Rightarrow> fault + (nat \<times> dns_state \<times> packet)" where
  "dns_encode_packet st recv_pkt send_pkt fl =
     (case dns_encode_queries fl (buffer recv_pkt) (clist_reset st) (buffer send_pkt)
             sizeof_dns_header of
        Inl f \<Rightarrow> Inl f
      | Inr (st1, b1, off1, query_count1) \<Rightarrow>
      (case dns_encode_rrs fl (buffer recv_pkt) RR_ANSWER st1 b1 off1 of
        Inl f \<Rightarrow> Inl f
      | Inr (st2, b2, off2, answer_count) \<Rightarrow>
      (case dns_encode_rrs fl (buffer recv_pkt) RR_AUTHORITY st2 b2 off2 of
        Inl f \<Rightarrow> Inl f
      | Inr (st3, b3, off3, authority_count) \<Rightarrow>
      (case dns_encode_rrs fl (buffer recv_pkt) RR_ADDITIONAL st3 b3 off3 of
        Inl f \<Rightarrow> Inl f
      | Inr (st4, b4, off4, additional_count) \<Rightarrow>
          if query_count1 = 0 \<and> answer_count = 0 \<and> authority_count = 0 \<and> additional_count = 0
          then Inr (0, st4, send_pkt\<lparr>buffer := b4\<rparr>)
          else
            Inr (off4, st4,
                 send_pkt\<lparr>buffer :=
                            memcpy
                              (put16 (put16 (put16 (put16 b4 4 query_count1) 6 answer_count)
                                        8 authority_count) 10 additional_count)
                              0 (buffer recv_pkt) 0 4,
                          bytes := off4\<rparr>)))))"

section \<open>The bridge loop (bridge.c)\<close>

datatype ip_type = IPV4 | IPV6

text \<open>
  The globals the packet path reads (\<open>flag_warn\<close> is the \<open>-w\<close> option of the command
  line, \<open>filtering_enabled\<close> and \<open>global_filter_list\<close> come from the configuration),
  and the worker's \<open>thread_local_storage_t\<close>.
\<close>

record globals =
  flag_warn :: bool
  filtering_enabled :: bool
  global_filter_list :: "filter_list option"

record thread_local_storage =
  ip_type :: ip_type
  dns_state :: dns_state
  recv_packet :: packet
  send_packet :: packet

text \<open>
  A call of \<open>sendto\<close>: the socket, the bytes handed over and, for IPv6, the scope id
  written into the destination before the call. What \<open>sendto\<close> returns is the
  environment's and is not part of the model.
\<close>

datatype event = Sendto int "byte list" "nat option"

text \<open>
  \<open>recvfrom\<close> stores a datagram at the start of the buffer, cut to the size of the
  buffer, and leaves the rest of the buffer as it is.
\<close>

definition recvfrom :: "packet \<Rightarrow> byte list \<Rightarrow> packet" where
  "recvfrom pkt datagram =
     pkt\<lparr>bytes := min (length datagram) MDNS_MAX_PACKET_SIZE,
         buffer := (\<lambda>i. if i < min (length datagram) MDNS_MAX_PACKET_SIZE
                         then datagram ! i else buffer pkt i)\<rparr>"

text \<open>A send loop over the peers: the calls of \<open>sendto\<close> for the peers selected.\<close>

definition send_to_peers ::
  "ip_type \<Rightarrow> packet \<Rightarrow> (interface \<Rightarrow> bool) \<Rightarrow> interface list \<Rightarrow> event list" where
  "send_to_peers ipt pkt selected peers =
     map (\<lambda>peer. Sendto (sock peer) (region (buffer pkt) 0 (bytes pkt))
                   (if ipt = IPV6 then Some (if_index peer) else None))
         (filter selected peers)"

text \<open>The first part of \<open>receive\<close> after the decoder: the peers without outbound filter.\<close>

definition forward_nofilter ::
  "globals \<Rightarrow> thread_local_storage \<Rightarrow> bridge_interface
     \<Rightarrow> fault + (thread_local_storage \<times> event list)" where
  "forward_nofilter g ls iface =
     (if peer_nofilter_count iface \<noteq> 0 then
        (if global_filter_list g \<noteq> None \<or> inbound_filter_list iface \<noteq> None then
           (case dns_encode_packet (dns_state ls) (recv_packet ls) (send_packet ls) None of
              Inl f \<Rightarrow> Inl f
            | Inr (r, st1, sp) \<Rightarrow>
                Inr (ls\<lparr>dns_state := st1, send_packet := sp\<rparr>,
                     send_to_peers (ip_type ls) sp (\<lambda>peer. outbound_filter_list peer = None)
                       (peer_list iface)))
         else
           Inr (ls, send_to_peers (ip_type ls) (recv_packet ls)
                      (\<lambda>peer. outbound_filter_list peer = None) (peer_list iface)))
      else Inr (ls, []))"

text \<open>The second part: one round of the loop for each outbound filter list of the peers.\<close>

fun forward_filtered ::
  "thread_local_storage \<Rightarrow> bridge_interface \<Rightarrow> filter_list list
     \<Rightarrow> fault + (thread_local_storage \<times> event list)" where
  "forward_filtered ls iface [] = Inr (ls, [])"
| "forward_filtered ls iface (fl # fls) =
     (case dns_encode_packet (dns_state ls) (recv_packet ls) (send_packet ls) (Some fl) of
        Inl f \<Rightarrow> Inl f
      | Inr (r, st1, sp) \<Rightarrow>
          (case forward_filtered (ls\<lparr>dns_state := st1, send_packet := sp\<rparr>) iface fls of
             Inl f \<Rightarrow> Inl f
           | Inr (ls1, evs) \<Rightarrow>
               Inr (ls1,
                    (if r = 0 then []
                     else send_to_peers (ip_type ls) sp
                            (\<lambda>peer. outbound_filter_list peer = Some fl) (peer_list iface))
                    @ evs)))"

text \<open>The two parts together: what \<open>receive\<close> does once the packet is accepted.\<close>

definition forward ::
  "globals \<Rightarrow> thread_local_storage \<Rightarrow> bridge_interface
     \<Rightarrow> fault + (thread_local_storage \<times> event list)" where
  "forward g ls iface =
     (case forward_nofilter g ls iface of
        Inl f \<Rightarrow> Inl f
      | Inr (ls1, evs1) \<Rightarrow>
          (case forward_filtered ls1 iface (peer_filter_list iface) of
             Inl f \<Rightarrow> Inl f
           | Inr (ls2, evs2) \<Rightarrow> Inr (ls2, evs1 @ evs2)))"

text \<open>
  \<open>receive\<close>, with what \<open>recvfrom\<close> delivers as an argument (\<open>None\<close> where it returns
  \<open>-1\<close>): the new thread local storage and the calls of \<open>sendto\<close> in their order.
\<close>

definition receive ::
  "globals \<Rightarrow> thread_local_storage \<Rightarrow> bridge_interface \<Rightarrow> byte list option
     \<Rightarrow> fault + (thread_local_storage \<times> event list)" where
  "receive g ls iface received =
     (case received of
        None \<Rightarrow>
          Inr (ls\<lparr>dns_state := logged (dns_state ls)
                     [Logger ''recvfrom error on interface %s: %s'' [S (if_name iface)]]\<rparr>, [])
      | Some datagram \<Rightarrow>
          let ls1 = ls\<lparr>recv_packet := recvfrom (recv_packet ls) datagram\<rparr> in
          if filtering_enabled g then
            (case dns_decode_packet (global_filter_list g) (dns_state ls1) (recv_packet ls1) iface of
               Inl f \<Rightarrow> Inl f
             | Inr (r, st1) \<Rightarrow>
                 if r = 0 then Inr (ls1\<lparr>dns_state := st1\<rparr>, [])
                 else forward g (ls1\<lparr>dns_state := st1\<rparr>) iface)
          else forward g ls1 iface)"

section \<open>Example packets and configurations\<close>

text \<open>
  A worker as \<open>local_storage_create\<close> leaves it, with a \<open>realloc\<close> that always
  succeeds, and an interface \<open>ix0\<close> without filters whose only peer \<open>igc0\<close> has no
  outbound filter.
\<close>

definition example_storage :: thread_local_storage where
  "example_storage =
     \<lparr>ip_type = IPV4, dns_state = dns_state_create (\<lambda>k. True),
      recv_packet = \<lparr>bytes = 0, buffer = (\<lambda>i. 0)\<rparr>,
      send_packet = \<lparr>bytes = 0, buffer = (\<lambda>i. 0)\<rparr>\<rparr>"

definition example_peer :: interface where
  "example_peer = \<lparr>if_name = ''igc0'', inbound_filter_list = None, outbound_filter_list = None,
                    if_index = 2, sock = 4\<rparr>"

definition example_interface :: bridge_interface where
  "example_interface =
     \<lparr>if_name = ''ix0'', inbound_filter_list = None, outbound_filter_list = None,
      if_index = 1, sock = 3,
      peer_list = [example_peer], peer_filter_list = [], peer_nofilter_count = 1\<rparr>"

text \<open>
  A response of 42 bytes with two A records. The owner name of the second is a pointer
  to offset 25, the RDATA of the first, where a label of 15 bytes runs up to the last
  byte of the packet, \<open>0xC0\<close>. The byte after the packet, at index 42, is whatever an
  earlier and longer packet has left in the buffer.
\<close>

definition stale_pointer_datagram :: "byte list" where
  "stale_pointer_datagram =
     [0, 0, 0x84, 0, 0, 0, 0, 2, 0, 0, 0, 0,
      1, 0x61, 0, 0, 1, 0, 1, 0, 0, 0, 0, 0, 4, 15, 0x78, 0x78, 0x78,
      0xC0, 25, 0, 1, 0, 1, 0, 0, 0, 0, 0, 1, 0xC0]"

definition stale_pointer_packet :: "byte \<Rightarrow> packet" where
  "stale_pointer_packet stale =
     \<lparr>bytes = 42, buffer = bytes_of (stale_pointer_datagram @ [stale])\<rparr>"

text \<open>
  A response of 27 bytes with one NSEC record for \<open>a\<close> whose RDATA is the pointer
  \<open>0xC0 0x05\<close>, into the header.
\<close>

definition nsec_pointer_datagram :: "byte list" where
  "nsec_pointer_datagram =
     [0, 0, 0x84, 0, 0, 0, 0, 1, 0, 0, 0, 0,
      1, 0x61, 0, 0, 47, 0, 1, 0, 0, 0, 0, 0, 2, 0xC0, 0x05]"

definition nsec_pointer_packet :: packet where
  "nsec_pointer_packet = \<lparr>bytes = 27, buffer = bytes_of nsec_pointer_datagram\<rparr>"

text \<open>
  A response of 45 bytes with an A record for \<open>a\<close> and an MX record (type 15) for
  the same name.
\<close>

definition mx_datagram :: "byte list" where
  "mx_datagram =
     [0, 0, 0x84, 0, 0, 0, 0, 2, 0, 0, 0, 0,
      1, 0x61, 0, 0, 1, 0, 1, 0, 0, 0, 0, 0, 4, 10, 0, 0, 1,
      0xC0, 12, 0, 15, 0, 1, 0, 0, 0, 0, 0, 4, 0, 10, 0xC0, 12]"

text \<open>A query of 26 bytes with two questions of type A for \<open>a\<close>, neither compressed.\<close>

definition two_questions_datagram :: "byte list" where
  "two_questions_datagram =
     [0, 0, 0, 0, 0, 2, 0, 0, 0, 0, 0, 0,
      1, 0x61, 0, 0, 1, 0, 1,
      1, 0x61, 0, 0, 1, 0, 1]"

text \<open>The match name \<open>_ssh\<close> and the list that denies it.\<close>

definition deny_ssh :: filter_list where
  "deny_ssh = \<lparr>allow_deny = DENY, names = [[4, 0x5f, 0x73, 0x73, 0x68]]\<rparr>"

text \<open>The name \<open>_ssh\<close>, as the decoder stores it.\<close>

definition ssh_name :: dns_name where
  "ssh_name = \<lparr>name_length = 6, name_count = 2, name_offset = (\<lambda>i. if i = 1 then 5 else 0),
               name_labels = bytes_of [4, 0x5f, 0x73, 0x73, 0x68, 0]\<rparr>"

text \<open>
  A response of 31 bytes with one SVCB record (type 64) for \<open>_ssh\<close>, with priority 1
  and the root as target.
\<close>

definition svcb_datagram :: "byte list" where
  "svcb_datagram =
     [0, 0, 0x84, 0, 0, 0, 0, 1, 0, 0, 0, 0,
      4, 0x5f, 0x73, 0x73, 0x68, 0, 0, 64, 0, 1, 0, 0, 0, 0, 0, 3, 0, 1, 0]"

text \<open>
  The interface \<open>ix0\<close> with \<open>deny_ssh\<close> as its inbound filter list, and \<open>ix0\<close> without
  filter but with a single peer whose outbound filter list is \<open>deny_ssh\<close>.
\<close>

definition interface_with_inbound_filter :: bridge_interface where
  "interface_with_inbound_filter =
     \<lparr>if_name = ''ix0'', inbound_filter_list = Some deny_ssh, outbound_filter_list = None,
      if_index = 1, sock = 3,
      peer_list = [example_peer], peer_filter_list = [], peer_nofilter_count = 1\<rparr>"

definition interface_with_filtered_peer :: bridge_interface where
  "interface_with_filtered_peer =
     \<lparr>if_name = ''ix0'', inbound_filter_list = None, outbound_filter_list = None,
      if_index = 1, sock = 3,
      peer_list = [\<lparr>if_name = ''igc0'', inbound_filter_list = None,
                    outbound_filter_list = Some deny_ssh, if_index = 2, sock = 4\<rparr>],
      peer_filter_list = [deny_ssh], peer_nofilter_count = 0\<rparr>"

text \<open>The globals of a process started without \<open>-w\<close>, without and with a global filter list.\<close>

definition example_globals :: globals where
  "example_globals = \<lparr>flag_warn = False, filtering_enabled = True, global_filter_list = None\<rparr>"

definition globals_deny_ssh :: globals where
  "globals_deny_ssh =
     \<lparr>flag_warn = False, filtering_enabled = True, global_filter_list = Some deny_ssh\<rparr>"




definition ssh_txt_state :: dns_state where
  "ssh_txt_state =
     (dns_state example_storage)
       \<lparr>recv_query_count := 1, query_count := 1,
        query_list := (\<lambda>i. \<lparr>q_data = 18, q_type = 16, q_name = ssh_name\<rparr>)\<rparr>"

definition root_name :: dns_name where
  "root_name = \<lparr>name_length = 1, name_count = 1, name_offset = (\<lambda>i. 0), name_labels = (\<lambda>i. 0)\<rparr>"

text \<open>
  A packet of 25 bytes that holds the name \<open>a.local\<close> at offset 12 and, at offset 21,
  the label \<open>b\<close> followed by a pointer to offset 12.
\<close>

definition pointer_name_datagram :: "byte list" where
  "pointer_name_datagram =
     [0, 0, 0, 0, 0, 0, 0, 0, 0, 0, 0, 0,
      1, 0x61, 5, 0x6c, 0x6f, 0x63, 0x61, 0x6c, 0,
      1, 0x62, 0xC0, 12]"

definition pointer_name_packet :: packet where
  "pointer_name_packet = \<lparr>bytes = 25, buffer = bytes_of pointer_name_datagram\<rparr>"

section \<open>Notions used in the statements\<close>

text \<open>
  The part of the state the decoder fills and the encoder reads: the counts and the two
  lists of records.
\<close>

definition decoded :: "dns_state \<Rightarrow> nat \<times> (nat \<Rightarrow> dns_query) \<times> (nat \<Rightarrow> nat) \<times> (nat \<Rightarrow> nat) \<times> (nat \<Rightarrow> dns_rr)" where
  "decoded st = (query_count st, query_list st, rr_index st, rr_count st, rr_list st)"

text \<open>
  The queries and the records of a section that the encoder emits for an outbound
  filter list: those of the decoded ones that pass its outbound filter switch.
\<close>

definition emitted_queries :: "filter_list option \<Rightarrow> dns_state \<Rightarrow> dns_query list" where
  "emitted_queries fl st =
     filter (encode_query_allowed fl) (map (query_list st) [0 ..< query_count st])"

definition emitted_rrs :: "filter_list option \<Rightarrow> dns_state \<Rightarrow> nat \<Rightarrow> dns_rr list" where
  "emitted_rrs fl st section_type =
     filter (encode_rr_allowed fl)
       (map (rr_list st) [rr_index st section_type ..<
                          rr_index st section_type + rr_count st section_type])"

text \<open>
  What a call has returned, for the statements about runs: the returned number of
  \<open>dns_decode_name\<close>, \<open>dns_decode_packet\<close> and \<open>dns_encode_packet\<close>, the records the
  decoder has kept and the lines it has logged, and for \<open>receive\<close> the calls of \<open>sendto\<close>,
  the lines logged and the queries kept. \<open>None\<close> is a call that does not return normally.
\<close>

definition returned :: "fault + (nat \<times> 'a) \<Rightarrow> nat option" where
  "returned r = (case r of Inl f \<Rightarrow> None | Inr x \<Rightarrow> Some (fst x))"

definition kept_rrs :: "fault + (nat \<times> dns_state) \<Rightarrow> nat option" where
  "kept_rrs r = (case r of Inl f \<Rightarrow> None | Inr x \<Rightarrow> Some (total_rr_count (snd x)))"

definition decoder_log :: "fault + (nat \<times> dns_state) \<Rightarrow> log_entry list option" where
  "decoder_log r = (case r of Inl f \<Rightarrow> None | Inr x \<Rightarrow> Some (log_lines (snd x)))"

definition sent :: "fault + (thread_local_storage \<times> event list) \<Rightarrow> event list option" where
  "sent r = (case r of Inl f \<Rightarrow> None | Inr x \<Rightarrow> Some (snd x))"

definition receive_log ::
  "fault + (thread_local_storage \<times> event list) \<Rightarrow> log_entry list option" where
  "receive_log r = (case r of Inl f \<Rightarrow> None | Inr x \<Rightarrow> Some (log_lines (dns_state (fst x))))"

definition kept_queries ::
  "fault + (thread_local_storage \<times> event list) \<Rightarrow> (nat \<times> nat) option" where
  "kept_queries r =
     (case r of Inl f \<Rightarrow> None
      | Inr x \<Rightarrow> Some (query_count (dns_state (fst x)), recv_query_count (dns_state (fst x))))"

text \<open>
  The uncompressed wire form of a sequence of labels, without the terminating zero:
  each label after its length byte. A label a name can hold is not empty, and its
  length byte is not the first byte of a pointer.
\<close>

definition enc_labels :: "byte list list \<Rightarrow> byte list" where
  "enc_labels ls = concat (map (\<lambda>l. of_nat (length l) # l) ls)"

definition label_ok :: "byte list \<Rightarrow> bool" where
  "label_ok l = (l \<noteq> [] \<and> length l < 256 \<and> \<not> IS_LABEL_POINTER (of_nat (length l)))"

text \<open>
  A decoded name that holds the labels \<open>ls\<close>: the invariants of \<open>dns_name_t\<close>. And
  the name while it is decoded, with \<open>ls\<close> the labels copied so far.
\<close>

definition name_image :: "byte list list \<Rightarrow> dns_name \<Rightarrow> bool" where
  "name_image ls nm =
     ((\<forall>l \<in> set ls. label_ok l) \<and>
      length ls + 1 \<le> MAX_NUM_LABELS \<and>
      length (enc_labels ls) + 1 \<le> DNS_MAX_NAME_LEN \<and>
      name_count nm = length ls + 1 \<and>
      name_length nm = length (enc_labels ls) + 1 \<and>
      region (name_labels nm) 0 (name_length nm) = enc_labels ls @ [0] \<and>
      (\<forall>i \<le> length ls. name_offset nm i = length (enc_labels (take i ls))))"

definition name_prefix :: "byte list list \<Rightarrow> nat \<Rightarrow> nat \<Rightarrow> dns_name \<Rightarrow> bool" where
  "name_prefix ls name_offset0 label_count nm =
     ((\<forall>l \<in> set ls. label_ok l) \<and>
      label_count = length ls \<and>
      name_offset0 = length (enc_labels ls) \<and>
      name_offset0 + 1 \<le> DNS_MAX_NAME_LEN \<and>
      region (name_labels nm) 0 name_offset0 = enc_labels ls \<and>
      (\<forall>i < label_count. name_offset nm i = length (enc_labels (take i ls))))"

text \<open>
  The compression list as \<open>clist_alloc\<close>, \<open>clist_expand\<close> and \<open>clist_reset\<close> leave it:
  the entries from \<open>used_clist_count\<close> on are zero, and there is room for the
  initializer.
\<close>

definition clist_clean :: "dns_state \<Rightarrow> bool" where
  "clist_clean st =
     ((\<forall>i \<ge> used_clist_count st. clist st i = zero_entry) \<and>
      clist_initializer_count \<le> allocated_clist_count st)"

text \<open>
  The entries of the compression list that the labels of a name still to be added can
  meet below the entry \<open>child\<close>: an entry has either no children array yet, or room in
  it for another child, after the children it has, which all have a label.
\<close>

definition roomy :: "dns_state \<Rightarrow> nat \<Rightarrow> bool" where
  "roomy st i =
     ((child_allocated (clist st i) = 0 \<and> child_used (clist st i) = 0) \<or>
      (child_used (clist st i) < child_allocated (clist st i) \<and>
       i < child_index (clist st i) \<and>
       child_index (clist st i) + child_allocated (clist st i) \<le> used_clist_count st \<and>
       (\<forall>k < child_used (clist st i). label (clist st (child_index (clist st i) + k)) \<noteq> None)))"

definition add_inv :: "dns_state \<Rightarrow> nat \<Rightarrow> bool" where
  "add_inv st child =
     (1 \<le> child \<and> child < used_clist_count st \<and>
      used_clist_count st \<le> allocated_clist_count st \<and>
      (\<forall>i \<ge> used_clist_count st. clist st i = zero_entry) \<and>
      (\<forall>i. child \<le> i \<and> i < used_clist_count st \<longrightarrow> roomy st i) \<and>
      (\<forall>k. realloc_answers st k) \<and>
      pointer (clist st 0) = 0)"

section \<open>Filter evaluation: proofs\<close>

lemmas dns_types =
  DNS_TYPE_A_def DNS_TYPE_CNAME_def DNS_TYPE_PTR_def DNS_TYPE_HINFO_def DNS_TYPE_TXT_def
  DNS_TYPE_AAAA_def DNS_TYPE_SRV_def DNS_TYPE_DNAME_def DNS_TYPE_OPT_def DNS_TYPE_NSEC_def
  DNS_TYPE_SVCB_def DNS_TYPE_HTTPS_def DNS_TYPE_ANY_def

lemma memmem_sublist: "memmem h n = sublist n h"
proof (induction h)
  case Nil
  show ?case by simp
next
  case (Cons a h)
  have "prefix n (a # h) = (take (length n) (a # h) = n)"
    by (metis append_eq_conv_conj prefix_def)
  with Cons show ?case
    by (simp add: sublist_Cons_right)
qed

lemma filter_list_match_iff:
  "filter_list_match name ms = (\<exists>m \<in> set ms. sublist m (label_bytes name))"
  by (induction ms) (auto simp: dns_subset_match_def label_bytes_def memmem_sublist)

lemma filter_list_allowed_admits: "filter_list_allowed fl name = admits fl name"
  by (cases "allow_deny fl")
     (simp_all add: filter_list_allowed_def admits_def filter_list_match_iff)

text \<open>
  C5. \<open>allowed_inbound\<close> is true exactly when the global filter list, if there is
  one, admits the name and the inbound filter list of the interface, if there is one,
  admits it; a list admits a name when its mode is ALLOW and a match name occurs as a
  contiguous run of bytes in the name's label bytes, or its mode is DENY and none does.
\<close>

theorem allowed_inbound_iff_admits:
  "allowed_inbound g iface n =
     (admits_opt g n \<and> admits_opt (inbound_filter_list iface) n)"
  by (cases g; cases "inbound_filter_list iface")
     (auto simp: allowed_inbound_def admits_opt_def filter_list_allowed_admits Let_def)

theorem allowed_inbound_iff_admits_witness:
  "admits_opt (Some \<lparr>allow_deny = ALLOW, names = [[1, 97]]\<rparr>)
     \<lparr>name_length = 3, name_count = 2, name_offset = (\<lambda>i. 2 * i),
      name_labels = bytes_of [1, 97, 0]\<rparr> \<and>
   admits_opt (inbound_filter_list
       \<lparr>if_name = ''ix0'', inbound_filter_list = Some \<lparr>allow_deny = DENY, names = [[1, 98]]\<rparr>,
        outbound_filter_list = None, if_index = 1, sock = 3\<rparr>)
     \<lparr>name_length = 3, name_count = 2, name_offset = (\<lambda>i. 2 * i),
      name_labels = bytes_of [1, 97, 0]\<rparr> \<and>
   allowed_inbound (Some \<lparr>allow_deny = ALLOW, names = [[1, 97]]\<rparr>)
     \<lparr>if_name = ''ix0'', inbound_filter_list = Some \<lparr>allow_deny = DENY, names = [[1, 98]]\<rparr>,
      outbound_filter_list = None, if_index = 1, sock = 3\<rparr>
     \<lparr>name_length = 3, name_count = 2, name_offset = (\<lambda>i. 2 * i),
      name_labels = bytes_of [1, 97, 0]\<rparr>"
  using allowed_inbound_iff_admits
    [of "Some \<lparr>allow_deny = ALLOW, names = [[1, 97]]\<rparr>"
        "\<lparr>if_name = ''ix0'', inbound_filter_list = Some \<lparr>allow_deny = DENY, names = [[1, 98]]\<rparr>,
          outbound_filter_list = None, if_index = 1, sock = 3\<rparr>"
        "\<lparr>name_length = 3, name_count = 2, name_offset = (\<lambda>i. 2 * i),
          name_labels = bytes_of [1, 97, 0]\<rparr>"]
  by (simp add: admits_opt_def admits_def label_bytes_def region_def bytes_of_def
        sublist_code prefix_code upt_rec)

section \<open>Running the decoder on the example packets\<close>

lemma dns_decode_rrs_loop_numeral:
  "dns_decode_rrs_loop gfl iface pkt t (numeral k) st off =
   dns_decode_rrs_loop gfl iface pkt t (Suc (pred_numeral k)) st off"
  by (simp add: numeral_eq_Suc)

lemma dns_decode_queries_numeral:
  "dns_decode_queries gfl iface pkt (numeral k) st off =
   dns_decode_queries gfl iface pkt (Suc (pred_numeral k)) st off"
  by (simp add: numeral_eq_Suc)

lemmas decode_eval =
  dns_decode_packet_def dns_decode_header_def dns_decode_sections.simps dns_decode_rrs_def
  dns_decode_rr_def dns_decode_query_def decode_query_allowed_def dns_decode_name_def
  dns_decode_name_loop.simps decode_rr_allowed_def decode_rr_secondary_def
  decode_rr_filter_input_def dns_types sizeof_dns_header_def sizeof_dns_rr_header_def
  sizeof_dns_query_header_def sizeof_dns_rr_srv_data_def get16_def
  RR_ANSWER_def RR_AUTHORITY_def RR_ADDITIONAL_def NUM_RR_SECTION_TYPES_def MAX_NUM_LABELS_def
  MDNS_MAX_PACKET_SIZE_def DNS_MAX_NAME_LEN_def IS_LABEL_POINTER_def POINTER_OFFSET_def
  dns_state_create_def INITIAL_QUERY_COUNT_def INITIAL_RESOURCE_COUNT_def
  MAX_RESOURCE_COUNT_def MAX_QUERY_COUNT_def
  bytes_of_def Let_def dns_decode_rrs_loop_numeral dns_decode_queries_numeral logged_def
  zero_rr_def zero_name_def zero_query_def memcpy_def
  dns_labels_to_string_def dns_labels_to_string_loop.simps rr_section_name_def c_string_def
  region_def

lemmas result_eval =
  returned_def kept_rrs_def decoder_log_def sent_def receive_log_def kept_queries_def

text \<open>
  C1. The decoder reads the packet buffer at the index that is the received length:
  the two packets below have the same 42 bytes and differ only in the byte at index 42,
  and the decoder accepts the one and drops the other.
\<close>

theorem decode_reads_byte_after_packet:
  "bytes (stale_pointer_packet 12) = 42 \<and> bytes (stale_pointer_packet 0) = 42 \<and>
   region (buffer (stale_pointer_packet 12)) 0 42 = stale_pointer_datagram \<and>
   region (buffer (stale_pointer_packet 0)) 0 42 = stale_pointer_datagram \<and>
   returned (dns_decode_packet None (dns_state example_storage)
      (stale_pointer_packet 12) example_interface) = Some 42 \<and>
   returned (dns_decode_packet None (dns_state example_storage)
      (stale_pointer_packet 0) example_interface) = Some 0"
  by (simp add: decode_eval result_eval example_storage_def
        stale_pointer_packet_def stale_pointer_datagram_def upt_rec)

text \<open>
  C2. A packet whose NSEC record has the pointer \<open>0xC0 0x05\<close> as the name in its
  RDATA: \<open>dns_decode_name\<close> fails on that name, at offset 25, and \<open>dns_decode_packet\<close>
  returns 27, the length of the packet, with the record kept.
\<close>

theorem nsec_bad_pointer_not_dropped:
  "returned (dns_decode_name nsec_pointer_packet 25 zero_name) = Some 0 \<and>
   returned (dns_decode_packet None (dns_state example_storage)
      nsec_pointer_packet example_interface) = Some 27 \<and>
   kept_rrs (dns_decode_packet None (dns_state example_storage)
      nsec_pointer_packet example_interface) = Some 1 \<and>
   decoder_log (dns_decode_packet None (dns_state example_storage)
      nsec_pointer_packet example_interface)
     = Some [Packet_error ''bad label pointer in a name'' []]"
  by (simp add: decode_eval result_eval example_storage_def
        nsec_pointer_packet_def nsec_pointer_datagram_def)

text \<open>
  C9. With \<open>flag_warn\<close> off (\<open>example_globals\<close>) and no filter list anywhere, the packet with an A record and
  an MX record is logged as having an unsupported type, and the datagram sent to the
  peer is the received one, the MX record included.
\<close>

theorem unsupported_type_logged_without_warn:
  "receive_log
     (receive example_globals example_storage example_interface (Some mx_datagram))
     = Some [Packet_error ''unsupported type %d in %s record (dropped)'' [U 15, S ''answer''],
             Logger ''(name %s, data len %u)'' [B [1, 0x61], U 4]] \<and>
   sent
     (receive example_globals example_storage example_interface (Some mx_datagram))
     = Some [Sendto 4 mx_datagram None]"
  by (simp add: receive_def forward_def forward_nofilter_def recvfrom_def send_to_peers_def
        example_storage_def example_interface_def example_peer_def example_globals_def result_eval
        decode_eval mx_datagram_def upt_rec)

section \<open>The encoder leaves the decoded records alone\<close>





lemma decoded_clist_update [simp]:
  "decoded (st\<lparr>clist := c\<rparr>) = decoded st"
  by (simp add: decoded_def)


















lemma emitted_queries_decoded: "decoded st' = decoded st \<Longrightarrow> emitted_queries fl st' = emitted_queries fl st"
  by (simp add: emitted_queries_def decoded_def)

lemma emitted_rrs_decoded: "decoded st' = decoded st \<Longrightarrow> emitted_rrs fl st' t = emitted_rrs fl st t"
  by (simp add: emitted_rrs_def decoded_def)

lemma decoded_clist_reset [simp]: "decoded (clist_reset st) = decoded st"
  by (simp add: clist_reset_def decoded_def)







section \<open>The header of an encoded packet\<close>


section \<open>Running the encoder on the example packets\<close>

lemma clist_find_child_numeral:
  "clist_find_child c l i (numeral k) = clist_find_child c l i (Suc (pred_numeral k))"
  by (simp add: numeral_eq_Suc)

lemma encode_name_add_numeral:
  "encode_name_add nm po st ch (numeral k) = encode_name_add nm po st ch (Suc (pred_numeral k))"
  by (simp add: numeral_eq_Suc)

lemma dns_encode_queries_loop_numeral:
  "dns_encode_queries_loop fl rb i (numeral k) acc =
   dns_encode_queries_loop fl rb i (Suc (pred_numeral k)) acc"
  by (simp add: numeral_eq_Suc)

lemma dns_encode_rrs_loop_numeral:
  "dns_encode_rrs_loop fl rb i (numeral k) acc =
   dns_encode_rrs_loop fl rb i (Suc (pred_numeral k)) acc"
  by (simp add: numeral_eq_Suc)

lemmas encode_eval =
  dns_encode_packet_def dns_encode_queries_def dns_encode_rrs_def dns_encode_query_def
  dns_encode_rr_def dns_encode_rdata_def encode_query_allowed_def encode_rr_allowed_def
  encode_rr_filter_input_def dns_encode_name_def encode_name_search.simps clist_get_child_def
  clist_add_child_def clist_open_def clist_expand_def open_space_def update_child_indexes_def
  clist_reset_def clist_initializer_def clist_initializer_count_def label_equal_def label_at_def
  buf_put_def buf_copy_def bytes16_def put16_def OFFSET_TO_POINTER_def zero_entry_def
  local_label_def tcp_label_def realloc_ok_def realloc_called_def
  clist_find_child_numeral encode_name_add_numeral dns_encode_queries_loop_numeral
  dns_encode_rrs_loop_numeral
  allowed_outbound_def allowed_inbound_def filter_list_allowed_def dns_subset_match_def

lemmas receive_eval =
  receive_def forward_def forward_nofilter_def recvfrom_def send_to_peers_def
  example_storage_def example_interface_def example_peer_def example_globals_def
  globals_deny_ssh_def deny_ssh_def interface_with_inbound_filter_def
  interface_with_filtered_peer_def


section \<open>Nothing emitted, nothing sent\<close>

lemma dns_encode_queries_loop_none:
  "(\<And>j. i \<le> j \<Longrightarrow> j < i + n \<Longrightarrow> \<not> encode_query_allowed fl (query_list st j)) \<Longrightarrow>
   dns_encode_queries_loop fl rb i n (st, b, off, k) = Inr (st, b, off, k)"
proof (induction n arbitrary: i)
  case 0
  show ?case by simp
next
  case (Suc n)
  have "\<not> encode_query_allowed fl (query_list st i)" using Suc.prems[of i] by simp
  moreover have "dns_encode_queries_loop fl rb (i + 1) n (st, b, off, k) = Inr (st, b, off, k)"
    using Suc.prems by (intro Suc.IH) simp_all
  ultimately show ?case by (simp add: dns_encode_query_def)
qed

lemma dns_encode_rrs_loop_none:
  "(\<And>j. i \<le> j \<Longrightarrow> j < i + n \<Longrightarrow> \<not> encode_rr_allowed fl (rr_list st j)) \<Longrightarrow>
   dns_encode_rrs_loop fl rb i n (st, b, off, k) = Inr (st, b, off, k)"
proof (induction n arbitrary: i)
  case 0
  show ?case by simp
next
  case (Suc n)
  have "\<not> encode_rr_allowed fl (rr_list st i)" using Suc.prems[of i] by simp
  moreover have "dns_encode_rrs_loop fl rb (i + 1) n (st, b, off, k) = Inr (st, b, off, k)"
    using Suc.prems by (intro Suc.IH) simp_all
  ultimately show ?case by (simp add: dns_encode_rr_def)
qed

lemma dns_encode_queries_none:
  assumes "emitted_queries fl st = []"
  shows "dns_encode_queries fl rb st b off = Inr (st, b, off, 0)"
  unfolding dns_encode_queries_def
  using assms
  by (intro dns_encode_queries_loop_none) (auto simp: emitted_queries_def filter_empty_conv)

lemma dns_encode_rrs_none:
  assumes "emitted_rrs fl st t = []"
  shows "dns_encode_rrs fl rb t st b off = Inr (st, b, off, 0)"
  unfolding dns_encode_rrs_def
  using assms
  by (intro dns_encode_rrs_loop_none) (auto simp: emitted_rrs_def filter_empty_conv)

lemma dns_encode_packet_none:
  assumes "emitted_queries fl st = []" and "emitted_rrs fl st RR_ANSWER = []"
    and "emitted_rrs fl st RR_AUTHORITY = []" and "emitted_rrs fl st RR_ADDITIONAL = []"
  shows "dns_encode_packet st recv_pkt send_pkt fl = Inr (0, clist_reset st, send_pkt)"
proof -
  have q: "emitted_queries fl (clist_reset st) = []"
    using assms(1) by (simp add: emitted_queries_decoded[of "clist_reset st" st])
  have r: "emitted_rrs fl (clist_reset st) t = emitted_rrs fl st t" for t
    by (simp add: emitted_rrs_decoded[of "clist_reset st" st])
  show ?thesis
    unfolding dns_encode_packet_def
    by (simp add: dns_encode_queries_none[OF q] dns_encode_rrs_none r assms)
qed

text \<open>
  C7. When no query and no record of any section passes the outbound filter switch for
  a filter list, \<open>dns_encode_packet\<close> returns 0 for it, and the round of the bridge
  loop for that list calls \<open>sendto\<close> for no peer: the loop goes on with the next list.
\<close>

theorem empty_result_not_sent:
  assumes "emitted_queries (Some f) (dns_state ls) = []"
    and "emitted_rrs (Some f) (dns_state ls) RR_ANSWER = []"
    and "emitted_rrs (Some f) (dns_state ls) RR_AUTHORITY = []"
    and "emitted_rrs (Some f) (dns_state ls) RR_ADDITIONAL = []"
  shows "dns_encode_packet (dns_state ls) (recv_packet ls) (send_packet ls) (Some f)
           = Inr (0, clist_reset (dns_state ls), send_packet ls) \<and>
         forward_filtered ls iface (f # fls)
           = forward_filtered (ls\<lparr>dns_state := clist_reset (dns_state ls)\<rparr>) iface fls"
proof -
  note e = dns_encode_packet_none[OF assms, of "recv_packet ls" "send_packet ls"]
  have "forward_filtered ls iface (f # fls)
          = forward_filtered (ls\<lparr>dns_state := clist_reset (dns_state ls)\<rparr>) iface fls"
    by (simp add: e split: sum.splits)
  with e show ?thesis by simp
qed

theorem empty_result_not_sent_witness:
  "emitted_queries (Some deny_ssh) (dns_state (example_storage\<lparr>dns_state := ssh_txt_state\<rparr>)) = [] \<and>
   returned (dns_encode_packet ssh_txt_state (recv_packet example_storage)
               (send_packet example_storage) (Some deny_ssh)) = Some 0 \<and>
   sent (forward_filtered (example_storage\<lparr>dns_state := ssh_txt_state\<rparr>)
           interface_with_filtered_peer [deny_ssh]) = Some []"
proof -
  have q: "emitted_queries (Some deny_ssh)
             (dns_state (example_storage\<lparr>dns_state := ssh_txt_state\<rparr>)) = []"
    by (simp add: emitted_queries_def ssh_txt_state_def example_storage_def dns_state_create_def
          encode_query_allowed_def dns_types allowed_outbound_def filter_list_allowed_def
          dns_subset_match_def deny_ssh_def ssh_name_def region_def bytes_of_def upt_rec)
  have r: "emitted_rrs (Some deny_ssh)
             (dns_state (example_storage\<lparr>dns_state := ssh_txt_state\<rparr>)) t = []" for t
    by (simp add: emitted_rrs_def ssh_txt_state_def example_storage_def dns_state_create_def)
  from empty_result_not_sent[OF q r r r, of interface_with_filtered_peer "[]"] q
  show ?thesis by (simp add: result_eval)
qed

section \<open>The root name\<close>

text \<open>
  C10. A name with a label count of at most 1 is encoded as a single zero byte at the
  packet offset (which lies in the buffer), the offset after it is returned, and the
  state, the compression list in it, is returned as it was given, whatever it is.
\<close>

theorem encode_root_name:
  assumes "name_count nm \<le> 1" and "packet_offset < MDNS_MAX_PACKET_SIZE"
  shows "dns_encode_name st b packet_offset nm = Inr (packet_offset + 1, st, b(packet_offset := 0))"
proof -
  have "(\<lambda>i. if packet_offset \<le> i \<and> i < packet_offset + 1 then [0] ! (i - packet_offset) else b i)
          = b(packet_offset := 0)"
    by (auto simp: fun_eq_iff)
  with assms show ?thesis
    by (simp add: dns_encode_name_def buf_put_def)
qed

theorem encode_root_name_witness:
  "name_count root_name \<le> 1 \<and> (12::nat) < MDNS_MAX_PACKET_SIZE \<and>
   dns_encode_name (dns_state example_storage) (buffer (send_packet example_storage)) 12 root_name
     = Inr (13, dns_state example_storage, (buffer (send_packet example_storage))(12 := 0))"
proof -
  have h1: "name_count root_name \<le> 1" by (simp add: root_name_def)
  have h2: "(12::nat) < MDNS_MAX_PACKET_SIZE" by (simp add: MDNS_MAX_PACKET_SIZE_def)
  from encode_root_name[OF h1 h2] h1 h2 show ?thesis by simp
qed

section \<open>Peers without outbound filter\<close>

lemma region_recvfrom:
  "length datagram \<le> MDNS_MAX_PACKET_SIZE \<Longrightarrow>
   region (buffer (recvfrom pkt datagram)) 0 (bytes (recvfrom pkt datagram)) = datagram"
  by (rule nth_equalityI) (auto simp: region_def recvfrom_def)

text \<open>
  C8, as the code has it. For an interface with a peer without outbound filter: when
  neither a global filter list nor an inbound filter list of the interface is
  configured, each such peer is sent the datagram as it was received, in the order of
  the peer list; when one of the two is configured, whether or not it has rejected a
  record, each such peer is sent what \<open>dns_encode_packet\<close> builds with a null filter.
\<close>

theorem forward_nofilter_payload:
  assumes "peer_nofilter_count iface \<noteq> 0" and "length datagram \<le> MDNS_MAX_PACKET_SIZE"
  shows "(global_filter_list g = None \<and> inbound_filter_list iface = None \<longrightarrow>
            forward_nofilter g (ls\<lparr>recv_packet := recvfrom (recv_packet ls) datagram\<rparr>) iface
              = Inr (ls\<lparr>recv_packet := recvfrom (recv_packet ls) datagram\<rparr>,
                     map (\<lambda>peer. Sendto (sock peer) datagram
                                   (if ip_type ls = IPV6 then Some (if_index peer) else None))
                         (filter (\<lambda>peer. outbound_filter_list peer = None) (peer_list iface)))) \<and>
         ((global_filter_list g \<noteq> None \<or> inbound_filter_list iface \<noteq> None) \<and>
          dns_encode_packet (dns_state ls) (recv_packet ls) (send_packet ls) None = Inr (r, st1, sp) \<longrightarrow>
            forward_nofilter g ls iface
              = Inr (ls\<lparr>dns_state := st1, send_packet := sp\<rparr>,
                     map (\<lambda>peer. Sendto (sock peer) (region (buffer sp) 0 (bytes sp))
                                   (if ip_type ls = IPV6 then Some (if_index peer) else None))
                         (filter (\<lambda>peer. outbound_filter_list peer = None) (peer_list iface))))"
  using assms
  by (auto simp: forward_nofilter_def send_to_peers_def region_recvfrom)

theorem forward_nofilter_payload_witness:
  "peer_nofilter_count example_interface \<noteq> 0 \<and>
   length two_questions_datagram \<le> MDNS_MAX_PACKET_SIZE \<and>
   global_filter_list example_globals = None \<and> inbound_filter_list example_interface = None \<and>
   sent (forward_nofilter example_globals
           (example_storage\<lparr>recv_packet :=
              recvfrom (recv_packet example_storage) two_questions_datagram\<rparr>) example_interface)
     = Some [Sendto 4 two_questions_datagram None]"
proof -
  have h1: "peer_nofilter_count example_interface \<noteq> 0" by (simp add: example_interface_def)
  have h2: "length two_questions_datagram \<le> MDNS_MAX_PACKET_SIZE"
    by (simp add: two_questions_datagram_def MDNS_MAX_PACKET_SIZE_def)
  have h3: "global_filter_list example_globals = None \<and> inbound_filter_list example_interface = None"
    by (simp add: example_globals_def example_interface_def)
  from forward_nofilter_payload[OF h1 h2, of example_globals example_storage] h1 h2 h3
  show ?thesis
    by (simp add: result_eval example_interface_def example_peer_def example_storage_def)
qed

text \<open>
  The claim as it is written fails where a filter list is configured and rejects
  nothing: with the global list \<open>deny_ssh\<close>, both questions of \<open>two_questions_datagram\<close>
  are kept (2 of 2), and the peer is sent a datagram of 25 bytes, the second name
  compressed, not the 26 bytes received.
\<close>

theorem sent_reencoded_though_nothing_rejected:
  "kept_queries (receive globals_deny_ssh example_storage example_interface
                   (Some two_questions_datagram)) = Some (2, 2) \<and>
   sent (receive globals_deny_ssh example_storage example_interface
           (Some two_questions_datagram))
     = Some [Sendto 4 [0, 0, 0, 0, 0, 2, 0, 0, 0, 0, 0, 0,
                       1, 0x61, 0, 0, 1, 0, 1, 0xC0, 12, 0, 1, 0, 1] None] \<and>
   [0, 0, 0, 0, 0, 2, 0, 0, 0, 0, 0, 0, 1, 0x61, 0, 0, 1, 0, 1, 0xC0, 12, 0, 1, 0, 1]
     \<noteq> two_questions_datagram"
  by (simp add: receive_eval result_eval decode_eval encode_eval two_questions_datagram_def
        upt_rec)

section \<open>Outbound filtering of SVCB\<close>

text \<open>
  C6. An SVCB record for \<open>_ssh\<close> and the list that denies \<open>_ssh\<close>: as the inbound
  filter list of the interface the list has the decoder drop the record, and with it
  the packet; as the outbound filter list of the peer it lets the record through, and
  the peer is sent the packet as it came.
\<close>

theorem outbound_filter_passes_svcb:
  "sent (receive example_globals example_storage interface_with_inbound_filter
           (Some svcb_datagram)) = Some [] \<and>
   sent (receive example_globals example_storage interface_with_filtered_peer
           (Some svcb_datagram)) = Some [Sendto 4 svcb_datagram None]"
  by (simp add: receive_eval result_eval decode_eval encode_eval svcb_datagram_def upt_rec)

section \<open>Names through the encoder and back\<close>

subsection \<open>Label sequences and regions of a buffer\<close>

lemma enc_labels_Nil [simp]: "enc_labels [] = []"
  by (simp add: enc_labels_def)

lemma enc_labels_snoc: "enc_labels (ls @ [l]) = enc_labels ls @ of_nat (length l) # l"
  by (simp add: enc_labels_def)

lemma enc_labels_Cons: "enc_labels (l # ls) = of_nat (length l) # l @ enc_labels ls"
  by (simp add: enc_labels_def)

lemma enc_labels_append: "enc_labels (xs @ ys) = enc_labels xs @ enc_labels ys"
  by (simp add: enc_labels_def)

lemma region_length [simp]: "length (region b off n) = n"
  by (simp add: region_def)

lemma region_nth [simp]: "i < n \<Longrightarrow> region b off n ! i = b (off + i)"
  by (simp add: region_def)

lemma region_append: "region b off (n + m) = region b off n @ region b (off + n) m"
  by (rule nth_equalityI) (auto simp: nth_append add.commute add.left_commute)

lemma region_Suc: "region b off (Suc n) = b off # region b (off + 1) n"
  by (rule nth_equalityI) (auto simp: nth_Cons split: nat.splits)

lemma region_eqI: "(\<And>i. i < n \<Longrightarrow> b (off + i) = b' (off' + i)) \<Longrightarrow> region b off n = region b' off' n"
  by (rule nth_equalityI) auto

lemma region_0 [simp]: "region b off 0 = []"
  by (simp add: region_def)

text \<open>The two steps of the decoding loop that do not follow a pointer.\<close>

lemma decode_loop_end:
  assumes "label_offset < MDNS_MAX_PACKET_SIZE" and "buffer pkt label_offset = 0"
    and "label_count + 1 \<le> MAX_NUM_LABELS"
  shows "dns_decode_name_loop pkt packet_offset label_offset compressed name_offset0 label_count nm =
         Inr (if \<not> compressed then packet_offset + 1 else packet_offset,
              nm\<lparr>name_offset := (name_offset nm)(label_count := name_offset0 mod 256),
                 name_labels := (name_labels nm)(name_offset0 := 0),
                 name_length := (name_offset0 + 1) mod 65536,
                 name_count := (label_count + 1) mod 256\<rparr>, [])"
  using assms
  by (subst dns_decode_name_loop.simps) (simp add: IS_LABEL_POINTER_def Let_def)

lemma decode_loop_copy:
  assumes "label_offset < MDNS_MAX_PACKET_SIZE" and "\<not> IS_LABEL_POINTER (buffer pkt label_offset)"
    and "unat (buffer pkt label_offset) \<noteq> 0"
    and "label_count + 1 \<le> MAX_NUM_LABELS"
    and "label_offset + unat (buffer pkt label_offset) + 2 \<le> bytes pkt"
    and "name_offset0 + unat (buffer pkt label_offset) + 2 \<le> DNS_MAX_NAME_LEN"
  shows "dns_decode_name_loop pkt packet_offset label_offset compressed name_offset0 label_count nm =
         dns_decode_name_loop pkt
           (if \<not> compressed then packet_offset + (unat (buffer pkt label_offset) + 1) else packet_offset)
           (label_offset + (unat (buffer pkt label_offset) + 1)) compressed
           (name_offset0 + (unat (buffer pkt label_offset) + 1)) (label_count + 1)
           (nm\<lparr>name_offset := (name_offset nm)(label_count := name_offset0 mod 256),
               name_labels := memcpy (name_labels nm) name_offset0 (buffer pkt) label_offset
                                (unat (buffer pkt label_offset) + 1)\<rparr>)"
  using assms
  by (subst dns_decode_name_loop.simps) (simp add: Let_def)

subsection \<open>What the decoder builds\<close>

lemma name_prefix_end:
  assumes "name_prefix ls no lc nm" and "lc + 1 \<le> MAX_NUM_LABELS"
  shows "name_image ls
           (nm\<lparr>name_offset := (name_offset nm)(lc := no mod 256),
               name_labels := (name_labels nm)(no := 0),
               name_length := (no + 1) mod 65536,
               name_count := (lc + 1) mod 256\<rparr>)"
proof -
  from assms have lc: "lc = length ls" and no: "no = length (enc_labels ls)"
    and b: "no + 1 \<le> 256" and ok: "\<forall>l \<in> set ls. label_ok l"
    and r: "region (name_labels nm) 0 no = enc_labels ls"
    and o: "\<forall>i < lc. name_offset nm i = length (enc_labels (take i ls))"
    and m: "lc + 1 \<le> 127"
    unfolding name_prefix_def DNS_MAX_NAME_LEN_def MAX_NUM_LABELS_def by auto
  have r': "region ((name_labels nm)(no := 0)) 0 (no + 1) = enc_labels ls @ [0]"
  proof -
    have "region ((name_labels nm)(no := 0)) 0 no = region (name_labels nm) 0 no"
      by (rule region_eqI) simp
    moreover have "region ((name_labels nm)(no := 0)) no 1 = [0]"
      by (simp add: region_def)
    ultimately show ?thesis
      using region_append[of "(name_labels nm)(no := 0)" 0 no 1] r by simp
  qed
  show ?thesis
    unfolding name_image_def
    using lc no b ok o m r'
    by (auto simp: DNS_MAX_NAME_LEN_def MAX_NUM_LABELS_def le_less)
qed

lemma name_prefix_copy:
  assumes p: "name_prefix ls no lc nm"
    and np: "\<not> IS_LABEL_POINTER (buffer pkt lo)" and nz: "unat (buffer pkt lo) \<noteq> 0"
    and room: "no + unat (buffer pkt lo) + 2 \<le> DNS_MAX_NAME_LEN"
  shows "name_prefix (ls @ [region (buffer pkt) (lo + 1) (unat (buffer pkt lo))])
           (no + (unat (buffer pkt lo) + 1)) (lc + 1)
           (nm\<lparr>name_offset := (name_offset nm)(lc := no mod 256),
               name_labels := memcpy (name_labels nm) no (buffer pkt) lo
                                (unat (buffer pkt lo) + 1)\<rparr>)"
proof -
  let ?n = "unat (buffer pkt lo)"
  let ?l = "region (buffer pkt) (lo + 1) ?n"
  from p have lc: "lc = length ls" and no: "no = length (enc_labels ls)"
    and ok: "\<forall>l \<in> set ls. label_ok l"
    and r: "region (name_labels nm) 0 no = enc_labels ls"
    and o: "\<forall>i < lc. name_offset nm i = length (enc_labels (take i ls))"
    unfolding name_prefix_def by auto
  have w: "(of_nat ?n :: byte) = buffer pkt lo" by simp
  have n256: "?n < 256" by (rule order_less_le_trans[OF unsigned_less]) simp
  have lne: "?l \<noteq> []"
    using nz by (metis region_length list.size(3))
  have lok: "label_ok ?l"
    using lne np n256 by (simp add: label_ok_def w)
  have e: "enc_labels (ls @ [?l]) = enc_labels ls @ region (buffer pkt) lo (?n + 1)"
    by (simp add: enc_labels_snoc w region_Suc)
  have r1: "region (memcpy (name_labels nm) no (buffer pkt) lo (?n + 1)) 0 no
              = region (name_labels nm) 0 no"
    by (rule region_eqI) (simp add: memcpy_def)
  have r2: "region (memcpy (name_labels nm) no (buffer pkt) lo (?n + 1)) no (?n + 1)
              = region (buffer pkt) lo (?n + 1)"
    by (rule region_eqI) (simp add: memcpy_def)
  have r': "region (memcpy (name_labels nm) no (buffer pkt) lo (?n + 1)) 0 (no + (?n + 1))
              = enc_labels (ls @ [?l])"
    using r1 r2 r e region_append[of _ 0 no "?n + 1"] by simp
  have nob: "no < 256" using room by (simp add: DNS_MAX_NAME_LEN_def)
  show ?thesis
    unfolding name_prefix_def
    using lc no ok o lok r' room nob e
    by (auto simp: DNS_MAX_NAME_LEN_def less_Suc_eq)
qed

lemma name_prefix_Nil: "name_prefix [] 0 0 nm"
  by (simp add: name_prefix_def DNS_MAX_NAME_LEN_def)

text \<open>A name that the decoder completes has the invariants of a decoded name.\<close>

lemma decode_loop_name_image:
  "dns_decode_name_loop pkt po lo c no lc nm = Inr (r, nm', lg) \<Longrightarrow> r \<noteq> 0 \<Longrightarrow>
   name_prefix ls no lc nm \<Longrightarrow> \<exists>ls'. name_image ls' nm'"
proof (induction pkt po lo c no lc nm arbitrary: ls rule: dns_decode_name_loop.induct)
  case (1 pkt po lo c no lc nm)
  note res = "1.prems"(1) and nz = "1.prems"(2) and pre = "1.prems"(3)
  have lo: "lo < MDNS_MAX_PACKET_SIZE"
    using res by (subst (asm) dns_decode_name_loop.simps) (auto split: if_splits)
  show ?case
  proof (cases "IS_LABEL_POINTER (buffer pkt lo)")
    case True
    let ?p = "POINTER_OFFSET (buffer pkt lo) (buffer pkt (lo + 1))"
    from res nz lo True have ok: "lo + 1 < MDNS_MAX_PACKET_SIZE" "\<not> (?p < sizeof_dns_header \<or> lo \<le> ?p)"
      and rec: "dns_decode_name_loop pkt (if \<not> c then po + 2 else po) ?p True no lc nm = Inr (r, nm', lg)"
      by (subst (asm) dns_decode_name_loop.simps, simp add: Let_def split: if_splits)+
    from "1.IH"(1)[OF _ refl True _ refl _ rec nz pre] lo ok show ?thesis by simp
  next
    case False
    have lcb: "lc + 1 \<le> MAX_NUM_LABELS"
      using res nz lo False
      by (subst (asm) dns_decode_name_loop.simps) (simp add: Let_def split: if_splits)
    show ?thesis
    proof (cases "unat (buffer pkt lo) = 0")
      case True
      then have z: "buffer pkt lo = 0" by (simp add: unat_eq_0)
      from res decode_loop_end[OF lo z lcb, of po c no nm] name_prefix_end[OF pre lcb]
      show ?thesis by auto
    next
      case nzl: False
      from res nz lo False lcb nzl have
        b1: "lo + unat (buffer pkt lo) + 2 \<le> bytes pkt" and
        b2: "no + unat (buffer pkt lo) + 2 \<le> DNS_MAX_NAME_LEN"
        by (subst (asm) dns_decode_name_loop.simps, simp add: Let_def split: if_splits)+
      note step = decode_loop_copy[OF lo False nzl lcb b1 b2, of po c nm]
      note pre' = name_prefix_copy[OF pre False nzl b2]
      show ?thesis
        by (rule "1.IH"(2)[where ls = "ls @ [region (buffer pkt) (lo + 1) (unat (buffer pkt lo))]"])
           (use res step nz lo lcb nzl b1 b2 False pre' in \<open>auto simp: not_less\<close>)
    qed
  qed
qed

lemma region_split_at:
  assumes "region b off (n + m) = xs @ ys" and "length xs = n"
  shows "region b off n = xs" and "region b (off + n) m = ys"
  using assms by (simp_all add: region_append)

text \<open>Decoding the uncompressed wire form of a sequence of labels gives back the labels.\<close>

lemma decode_image:
  "name_prefix done no lc nm \<Longrightarrow> \<forall>l \<in> set rest. label_ok l \<Longrightarrow>
   region (buffer pkt) lo (length (enc_labels rest) + 1) = enc_labels rest @ [0] \<Longrightarrow>
   lo + length (enc_labels rest) + 1 \<le> bytes pkt \<Longrightarrow> bytes pkt \<le> MDNS_MAX_PACKET_SIZE \<Longrightarrow>
   length (done @ rest) + 1 \<le> MAX_NUM_LABELS \<Longrightarrow>
   length (enc_labels (done @ rest)) + 1 \<le> DNS_MAX_NAME_LEN \<Longrightarrow>
   \<exists>nm'. dns_decode_name_loop pkt po lo False no lc nm
           = Inr (po + length (enc_labels rest) + 1, nm', []) \<and>
         name_image (done @ rest) nm'"
proof (induction rest arbitrary: "done" no lc nm po lo)
  case Nil
  from Nil.prems(3) have z: "buffer pkt lo = 0" by (simp add: region_def)
  from Nil.prems(4,5) have lo: "lo < MDNS_MAX_PACKET_SIZE" by simp
  from Nil.prems(1,6) have lcb: "lc + 1 \<le> MAX_NUM_LABELS" by (simp add: name_prefix_def)
  from decode_loop_end[OF lo z lcb, of po False no nm] name_prefix_end[OF Nil.prems(1) lcb]
  show ?case by simp
next
  case (Cons l rest)
  let ?n = "length l"
  from Cons.prems(2) have lok: "label_ok l" and rok: "\<forall>l \<in> set rest. label_ok l" by simp_all
  have img: "region (buffer pkt) lo (Suc ?n + (length (enc_labels rest) + 1))
               = (of_nat ?n # l) @ (enc_labels rest @ [0])"
    using Cons.prems(3) by (simp add: enc_labels_Cons)
  from region_split_at[OF img] have
    h: "region (buffer pkt) lo (Suc ?n) = of_nat ?n # l" and
    t: "region (buffer pkt) (lo + Suc ?n) (length (enc_labels rest) + 1) = enc_labels rest @ [0]"
    by simp_all
  from h have w: "buffer pkt lo = of_nat ?n" and c: "region (buffer pkt) (lo + 1) ?n = l"
    by (simp_all add: region_Suc)
  from lok have n256: "?n < 256" and np: "\<not> IS_LABEL_POINTER (buffer pkt lo)" and ne: "?n \<noteq> 0"
    by (simp_all add: label_ok_def w)
  have u: "unat (buffer pkt lo) = ?n" using n256 by (simp add: w unat_of_nat)
  from Cons.prems(4,5) have lo: "lo < MDNS_MAX_PACKET_SIZE" by simp
  from Cons.prems(1) have lc: "lc = length done" and no: "no = length (enc_labels done)"
    by (simp_all add: name_prefix_def)
  from Cons.prems(6) lc have lcb: "lc + 1 \<le> MAX_NUM_LABELS" by simp
  from Cons.prems(4) have b1: "lo + unat (buffer pkt lo) + 2 \<le> bytes pkt"
    by (simp add: u enc_labels_Cons)
  from Cons.prems(7) no have b2: "no + unat (buffer pkt lo) + 2 \<le> DNS_MAX_NAME_LEN"
    by (simp add: u enc_labels_append enc_labels_Cons)
  have nzl: "unat (buffer pkt lo) \<noteq> 0" using ne u by simp
  note step = decode_loop_copy[OF lo np nzl lcb b1 b2, of po False nm]
  note pre' = name_prefix_copy[OF Cons.prems(1) np nzl b2, unfolded u c]
  have "\<exists>nm'. dns_decode_name_loop pkt (po + (?n + 1)) (lo + (?n + 1)) False (no + (?n + 1)) (lc + 1)
            (nm\<lparr>name_offset := (name_offset nm)(lc := no mod 256),
                name_labels := memcpy (name_labels nm) no (buffer pkt) lo (?n + 1)\<rparr>)
           = Inr (po + (?n + 1) + length (enc_labels rest) + 1, nm', []) \<and>
         name_image ((done @ [l]) @ rest) nm'"
    by (rule Cons.IH[OF pre' rok])
       (use t Cons.prems in \<open>simp_all add: enc_labels_Cons\<close>)
  with step show ?case
    by (simp add: u enc_labels_Cons add.assoc)
qed

subsection \<open>The compression list while a name is added\<close>

lemma clist_find_child_cases:
  "(\<And>k. k < n \<Longrightarrow> label (c (i + k)) \<noteq> None) \<Longrightarrow>
   clist_find_child c l i n = Inr None \<or> (\<exists>k < n. clist_find_child c l i n = Inr (Some (i + k)))"
proof (induction n arbitrary: i)
  case 0
  show ?case by simp
next
  case (Suc n)
  from Suc.prems[of 0] obtain e where e: "label (c i) = Some e" by auto
  show ?case
  proof (cases "label_equal l e")
    case True
    with e show ?thesis by auto
  next
    case False
    have "clist_find_child c l (i + 1) n = Inr None \<or>
          (\<exists>k < n. clist_find_child c l (i + 1) n = Inr (Some (i + 1 + k)))"
      using Suc.prems[of "Suc k" for k] by (intro Suc.IH) simp
    with e False show ?thesis
      by (auto intro: exI[of _ "Suc k" for k])
  qed
qed

lemma clist_expand_clean:
  assumes "realloc_answers st (realloc_calls st)"
    and "\<forall>i \<ge> used_clist_count st. clist st i = zero_entry"
    and "used_clist_count st \<le> allocated_clist_count st"
  shows "clist_expand st n =
         (True, st\<lparr>realloc_calls := realloc_calls st + 1,
                  allocated_clist_count := allocated_clist_count st + n\<rparr>)"
proof -
  have "(\<lambda>i. if allocated_clist_count st \<le> i \<and> i < allocated_clist_count st + n
             then zero_entry else clist st i) = clist st"
    using assms(2,3) by (auto simp: fun_eq_iff)
  with assms(1) show ?thesis
    by (simp add: clist_expand_def realloc_ok_def realloc_called_def)
qed

lemma clist_open_at_end:
  assumes "\<forall>k. realloc_answers st k"
    and "\<forall>i \<ge> used_clist_count st. clist st i = zero_entry"
    and "used_clist_count st \<le> allocated_clist_count st"
  shows "clist_open st (used_clist_count st) n =
         (used_clist_count st,
          (if used_clist_count st + n \<ge> allocated_clist_count st
           then st\<lparr>realloc_calls := realloc_calls st + 1,
                   allocated_clist_count := allocated_clist_count st + n\<rparr>
           else st)\<lparr>used_clist_count := used_clist_count st + n\<rparr>)"
  using assms
  by (simp add: clist_open_def clist_expand_clean Let_def)

text \<open>A parent that has no children array yet: the child is appended to the list.\<close>

lemma clist_get_child_first:
  assumes inv: "add_inv st p" and small: "used_clist_count st < 65535"
    and z: "child_allocated (clist st p) = 0" "child_used (clist st p) = 0"
  shows "\<exists>st'. clist_get_child st p l = Inr (used_clist_count st, st') \<and>
               add_inv st' (used_clist_count st) \<and>
               used_clist_count st' = used_clist_count st + 1"
proof -
  let ?u = "used_clist_count st"
  from inv have p: "1 \<le> p" "p < ?u" and ua: "?u \<le> allocated_clist_count st"
    and zero: "\<forall>i \<ge> ?u. clist st i = zero_entry"
    and ans: "\<forall>k. realloc_answers st k" and root: "pointer (clist st 0) = 0"
    by (simp_all add: add_inv_def)
  have zu: "clist st ?u = zero_entry" using zero by simp
  have op: "clist_open (st\<lparr>clist := (clist st)(p := (clist st p)\<lparr>child_index := ?u\<rparr>)\<rparr>) ?u n =
         (?u, (if ?u + n \<ge> allocated_clist_count st
           then st\<lparr>clist := (clist st)(p := (clist st p)\<lparr>child_index := ?u\<rparr>),
                   realloc_calls := realloc_calls st + 1,
                   allocated_clist_count := allocated_clist_count st + n\<rparr>
           else st\<lparr>clist := (clist st)(p := (clist st p)\<lparr>child_index := ?u\<rparr>)\<rparr>)
              \<lparr>used_clist_count := ?u + n\<rparr>)" for n
    using clist_open_at_end[of "st\<lparr>clist := (clist st)(p := (clist st p)\<lparr>child_index := ?u\<rparr>)\<rparr>" n]
      ans zero ua p by simp
  show ?thesis
    unfolding clist_get_child_def
    using z p ua zero ans root small zu
    by (simp add: Let_def op clist_add_child_def add_inv_def roomy_def zero_entry_def)
qed

text \<open>A parent with room in its children array: the child is found or put in the room.\<close>

lemma clist_get_child_room:
  assumes inv: "add_inv st p"
    and r: "child_used (clist st p) < child_allocated (clist st p)"
  shows "\<exists>child st'. clist_get_child st p l = Inr (child, st') \<and> add_inv st' child \<and>
               used_clist_count st' = used_clist_count st"
proof -
  let ?u = "used_clist_count st"
  let ?e = "clist st p"
  from inv have p: "1 \<le> p" "p < ?u" and ua: "?u \<le> allocated_clist_count st"
    and zero: "\<forall>i \<ge> ?u. clist st i = zero_entry"
    and roomy: "\<And>i. p \<le> i \<Longrightarrow> i < ?u \<Longrightarrow> roomy st i"
    and ans: "\<forall>k. realloc_answers st k" and root: "pointer (clist st 0) = 0"
    by (simp_all add: add_inv_def)
  from roomy[of p] p r have
    ci: "p < child_index ?e" and blk: "child_index ?e + child_allocated ?e \<le> ?u"
    and lab: "\<And>k. k < child_used ?e \<Longrightarrow> label (clist st (child_index ?e + k)) \<noteq> None"
    by (auto simp: roomy_def)
  from clist_find_child_cases[of "child_used ?e" "clist st" "child_index ?e" l, OF lab]
  consider (none) "clist_find_child (clist st) l (child_index ?e) (child_used ?e) = Inr None"
    | (found) k where "k < child_used ?e"
        "clist_find_child (clist st) l (child_index ?e) (child_used ?e) = Inr (Some (child_index ?e + k))"
    by blast
  then show ?thesis
  proof cases
    case (found k)
    have "add_inv st (child_index ?e + k)"
      unfolding add_inv_def
      using p ua zero ans root ci blk found(1) r roomy by auto
    with found show ?thesis by (simp add: clist_get_child_def)
  next
    case none
    let ?i = "child_index ?e + child_used ?e"
    let ?st' = "st\<lparr>clist := (clist st)
                  (p := ?e\<lparr>child_used := (child_used ?e + 1) mod 2 ^ 16\<rparr>,
                   ?i := (clist st ?i)\<lparr>label := Some l\<rparr>)\<rparr>"
    have ip: "?i \<noteq> p" using ci by simp
    have g: "clist_get_child st p l = Inr (?i, ?st')"
      using none r ip by (simp add: clist_get_child_def Let_def clist_add_child_def)
    have iu: "?i < ?u" using blk r by simp
    have ro: "roomy ?st' i" if "?i \<le> i" "i < ?u" for i
    proof -
      have pi: "p \<le> i" "i \<noteq> p" using that ci by simp_all
      from roomy[OF pi(1) that(2)] show ?thesis
        unfolding roomy_def using pi that ci
        by (auto split: if_splits)
    qed
    have "add_inv ?st' ?i"
      unfolding add_inv_def
      using p ua zero ans root ci iu ro ip by auto
    with g show ?thesis by auto
  qed
qed

lemma clist_get_child_add_inv:
  assumes inv: "add_inv st p" and small: "used_clist_count st < 65535"
  shows "\<exists>child st'. clist_get_child st p l = Inr (child, st') \<and> add_inv st' child \<and>
               used_clist_count st' \<le> used_clist_count st + 1"
proof -
  from inv have "roomy st p" by (simp add: add_inv_def)
  then consider "child_allocated (clist st p) = 0 \<and> child_used (clist st p) = 0"
    | "child_used (clist st p) < child_allocated (clist st p)"
    by (auto simp: roomy_def)
  then show ?thesis
  proof cases
    case 1
    with clist_get_child_first[OF inv small, of l] show ?thesis by auto
  next
    case 2
    with clist_get_child_room[OF inv, of l] show ?thesis by auto
  qed
qed

lemma add_inv_pointer:
  assumes "add_inv st child"
  shows "add_inv (st\<lparr>clist := (clist st)(child := (clist st child)\<lparr>pointer := v\<rparr>)\<rparr>) child"
  using assms unfolding add_inv_def roomy_def
  by (auto simp: zero_entry_def)

lemma add_inv_expand:
  assumes "add_inv st child"
  shows "add_inv (st\<lparr>realloc_calls := rc, allocated_clist_count := allocated_clist_count st + n\<rparr>) child"
  using assms unfolding add_inv_def roomy_def by auto

text \<open>The second loop of \<open>dns_encode_name\<close> succeeds and leaves the root without pointer.\<close>

lemma encode_name_add_ok:
  "add_inv st child \<Longrightarrow> used_clist_count st + n < 65535 \<Longrightarrow>
   \<exists>st'. encode_name_add nm off st child n = Inr (True, st') \<and> pointer (clist st' 0) = 0"
proof (induction n arbitrary: st child)
  case 0
  then show ?case by (simp add: add_inv_def)
next
  case (Suc n)
  from Suc.prems(2) have small: "used_clist_count st < 65535" by simp
  from clist_get_child_add_inv[OF Suc.prems(1) small, of "label_at nm n"]
  obtain child1 st1 where
    g: "clist_get_child st child (label_at nm n) = Inr (child1, st1)" and
    i: "add_inv st1 child1" and u: "used_clist_count st1 \<le> used_clist_count st + 1"
    by blast
  from i have nz: "child1 \<noteq> 0" by (simp add: add_inv_def)
  let ?st2 = "st1\<lparr>clist := (clist st1)(child1 := (clist st1 child1)
                 \<lparr>pointer := OFFSET_TO_POINTER (off + name_offset nm n)\<rparr>)\<rparr>"
  have "\<exists>st'. encode_name_add nm off ?st2 child1 n = Inr (True, st') \<and> pointer (clist st' 0) = 0"
    by (rule Suc.IH[OF add_inv_pointer[OF i]]) (use u Suc.prems(2) in simp)
  with g nz show ?case by simp
qed

text \<open>The first label of a name, looked up below the root of the list just reset.\<close>

lemma clist_get_child_root_fresh:
  assumes c: "clist st = clist_initializer" and u: "used_clist_count st = 8"
    and a: "8 \<le> allocated_clist_count st" and ans: "\<forall>k. realloc_answers st k"
  shows "\<exists>child st'. clist_get_child st 0 l = Inr (child, st') \<and> add_inv st' child \<and>
           pointer (clist st' child) = 0 \<and> used_clist_count st' \<le> 9"
proof (cases "label_equal l (bytes_of local_label)")
  case True
  have f: "clist_find_child (clist st) l 1 1 = Inr (Some 1)"
    using True by (simp add: c clist_initializer_def)
  have "add_inv st 1"
    unfolding add_inv_def roomy_def
    using u a ans by (auto simp: c clist_initializer_def zero_entry_def)
  moreover have "pointer (clist st 1) = 0" by (simp add: c clist_initializer_def)
  ultimately show ?thesis
    using f u by (simp add: clist_get_child_def c clist_initializer_def)
next
  case False
  have f: "clist_find_child (clist st) l 1 1 = Inr None"
    using False by (simp add: c clist_initializer_def)
  have z: "\<forall>i \<ge> used_clist_count st. clist st i = zero_entry"
    by (simp add: c u clist_initializer_def)
  have ex: "clist_expand st n =
         (True, st\<lparr>realloc_calls := realloc_calls st + 1,
                  allocated_clist_count := allocated_clist_count st + n\<rparr>)" for n
    by (rule clist_expand_clean) (use ans z u a in simp_all)
  define c' where "c' = open_space 8 2 1 (update_child_indexes 8 2 1 clist_initializer)"
  have c'0: "c' 0 = clist_initializer 0" and c'2: "c' 2 = zero_entry"
    and c'3: "c' 3 = \<lparr>label = Some (bytes_of tcp_label), child_index = 5,
                       child_allocated = 4, child_used = 0, pointer = 0\<rparr>"
    by (simp_all add: c'_def open_space_def update_child_indexes_def clist_initializer_def
          zero_entry_def)
  have c'z: "c' i = zero_entry" if "4 \<le> i" for i
    using that
    by (auto simp: c'_def open_space_def update_child_indexes_def clist_initializer_def
          zero_entry_def)
  let ?st2 = "(if allocated_clist_count st \<le> 9
               then st\<lparr>realloc_calls := realloc_calls st + 1,
                       allocated_clist_count := allocated_clist_count st + 1\<rparr>
               else st)\<lparr>clist := c', used_clist_count := 9\<rparr>"
  have op: "clist_open st 2 1 = (2, ?st2)"
    by (simp add: clist_open_def ex u c c'_def Let_def)
  have op': "clist_open st (Suc (Suc 0)) (Suc 0) = (2, ?st2)"
    using op by (simp add: numeral_2_eq_2)
  let ?st' = "?st2\<lparr>clist := c'(0 := (clist_initializer 0)\<lparr>child_allocated := Suc (Suc 0), child_used := Suc (Suc 0)\<rparr>,
                              2 := zero_entry\<lparr>label := Some l\<rparr>)\<rparr>"
  have g: "clist_get_child st 0 l = Inr (2, ?st')"
    unfolding clist_get_child_def
    using f
    by (simp add: c u clist_initializer_def Let_def op' clist_add_child_def
          c'0[unfolded clist_initializer_def] c'2 zero_entry_def)
  have ro: "roomy ?st' i" if i2: "2 \<le> i" and i9: "i < 9" for i
  proof -
    from i2 have "i = 2 \<or> i = 3 \<or> 4 \<le> i" by linarith
    then consider "i = 2" | "i = 3" | "4 \<le> i" by blast
    then show ?thesis
      by cases (simp_all add: roomy_def c'3 c'z zero_entry_def)
  qed
  have "add_inv ?st' 2"
    unfolding add_inv_def
    using a ans ro by (auto simp: c'z clist_initializer_def zero_entry_def)
  moreover have "pointer (clist ?st' 2) = 0" by (simp add: zero_entry_def)
  ultimately show ?thesis using g by auto
qed

subsection \<open>The encoder on the list just reset\<close>

text \<open>Writes to the buffer of the packet to send that fit.\<close>

lemma buf_put_fits:
  "off + length xs \<le> MDNS_MAX_PACKET_SIZE \<Longrightarrow>
   buf_put b off xs = Inr (\<lambda>i. if off \<le> i \<and> i < off + length xs then xs ! (i - off) else b i)"
  by (simp add: buf_put_def)

lemma name_image_last:
  assumes im: "name_image ls nm" and ne: "ls \<noteq> []"
  shows "name_offset nm (length ls - 1) + unat (label_at nm (length ls - 1) 0) + 1
           = length (enc_labels ls)"
proof -
  let ?k = "length (enc_labels (butlast ls))"
  have ls: "ls = butlast ls @ [last ls]" using ne by simp
  have e: "enc_labels ls = enc_labels (butlast ls) @ of_nat (length (last ls)) # last ls"
    by (subst ls) (rule enc_labels_snoc)
  have "\<forall>i \<le> length ls. name_offset nm i = length (enc_labels (take i ls))"
    using im unfolding name_image_def by blast
  then have o: "name_offset nm (length ls - 1) = ?k"
    by (simp add: butlast_conv_take)
  have "\<forall>l \<in> set ls. label_ok l" using im unfolding name_image_def by blast
  then have ok: "label_ok (last ls)" using ne by simp
  have r: "region (name_labels nm) 0 (name_length nm) = enc_labels ls @ [0]"
    and nl: "name_length nm = length (enc_labels ls) + 1"
    using im unfolding name_image_def by blast+
  have "?k < name_length nm" by (simp add: nl e)
  then have "region (name_labels nm) 0 (name_length nm) ! ?k = name_labels nm ?k"
    by simp
  then have "name_labels nm ?k = of_nat (length (last ls))"
    by (simp add: r e nth_append)
  then have "unat (label_at nm (length ls - 1) 0) = length (last ls)"
    using ok o by (simp add: label_at_def label_ok_def unat_of_nat)
  then show ?thesis using o by (simp add: e)
qed

text \<open>A name encoded first after the reset of the list is written out in full.\<close>

lemma dns_encode_name_fresh:
  assumes im: "name_image ls nm" and c: "clist st = clist_initializer"
    and u: "used_clist_count st = 8" and a: "8 \<le> allocated_clist_count st"
    and ans: "\<forall>k. realloc_answers st k"
    and room: "off + name_length nm \<le> MDNS_MAX_PACKET_SIZE"
  shows "\<exists>st' b'. dns_encode_name st b off nm = Inr (off + name_length nm, st', b') \<and>
           region b' off (name_length nm) = enc_labels ls @ [0]"
proof (cases "ls = []")
  case True
  have nc: "name_count nm = 1" and nl: "name_length nm = 1"
    using im True unfolding name_image_def by auto
  have "region (\<lambda>i. if off \<le> i \<and> i < off + 1 then [0] ! (i - off) else b i) off 1 = [0::byte]"
    by (rule nth_equalityI) simp_all
  then show ?thesis
    using room True by (simp add: dns_encode_name_def nc nl buf_put_def)
next
  case False
  define n where "n = length ls - 1"
  have nc: "name_count nm = n + 2" and nl: "name_length nm = length (enc_labels ls) + 1"
    and lab: "region (name_labels nm) 0 (name_length nm) = enc_labels ls @ [0]"
    and len: "length ls + 1 \<le> MAX_NUM_LABELS"
    and elen: "length (enc_labels ls) + 1 \<le> DNS_MAX_NAME_LEN"
    using im False unfolding name_image_def n_def by auto
  have cl: "name_offset nm n + unat (label_at nm n 0) + 1 = length (enc_labels ls)"
    unfolding n_def by (rule name_image_last[OF im False])
  obtain child st1 where g: "clist_get_child st 0 (label_at nm n) = Inr (child, st1)"
    and inv1: "add_inv st1 child" and p1: "pointer (clist st1 child) = 0"
    and u1: "used_clist_count st1 \<le> 9"
    using clist_get_child_root_fresh[OF c u a ans] by blast
  have ch: "child \<noteq> 0" using inv1 by (simp add: add_inv_def)
  have s: "encode_name_search nm st 0 (n + 1) = Inr (Search_new st1 0 child n)"
    by (subst encode_name_search.simps) (simp add: g ch p1)
  obtain st2 where e: "(if used_clist_count st1 + n > allocated_clist_count st1
                        then clist_expand st1 n else (True, st1)) = (True, st2)"
    and inv2: "add_inv st2 child" and u2: "used_clist_count st2 \<le> 9"
  proof (cases "used_clist_count st1 + n > allocated_clist_count st1")
    case True
    have "clist_expand st1 n =
          (True, st1\<lparr>realloc_calls := realloc_calls st1 + 1,
                    allocated_clist_count := allocated_clist_count st1 + n\<rparr>)"
      by (rule clist_expand_clean) (use inv1 in \<open>simp_all add: add_inv_def\<close>)
    then show ?thesis
      using True add_inv_expand[OF inv1] u1
      by (intro that[of "st1\<lparr>realloc_calls := realloc_calls st1 + 1,
                            allocated_clist_count := allocated_clist_count st1 + n\<rparr>"])
         simp_all
  next
    case False
    then show ?thesis using inv1 u1 by (intro that[of st1]) simp_all
  qed
  let ?st3 = "st2\<lparr>clist := (clist st2)
                (child := (clist st2 child)
                   \<lparr>pointer := OFFSET_TO_POINTER (off + name_offset nm n)\<rparr>)\<rparr>"
  have inv3: "add_inv ?st3 child" by (rule add_inv_pointer[OF inv2])
  have "n < 127" using len n_def by (simp add: MAX_NUM_LABELS_def)
  then have "used_clist_count ?st3 + n < 65535" using u2 by simp
  from encode_name_add_ok[OF inv3 this]
  obtain st4 where ad: "encode_name_add nm off ?st3 child n = Inr (True, st4)"
    and p4: "pointer (clist st4 0) = 0" by blast
  let ?cl = "length (enc_labels ls)"
  let ?b1 = "\<lambda>i. if off \<le> i \<and> i < off + ?cl
                  then region (name_labels nm) 0 ?cl ! (i - off) else b i"
  let ?b2 = "\<lambda>i. if off + ?cl \<le> i \<and> i < off + ?cl + 1 then [0::byte] ! (i - (off + ?cl)) else ?b1 i"
  have r1: "region (name_labels nm) 0 ?cl = enc_labels ls"
    using region_split_at(1)[of "name_labels nm" 0 ?cl 1 "enc_labels ls" "[0]"] lab nl by simp
  have b1: "buf_put b off (region (name_labels nm) 0 ?cl) = Inr ?b1"
    using room nl by (simp add: buf_put_def)
  have b2: "buf_put ?b1 (off + ?cl) [0] = Inr ?b2"
    using room nl by (simp add: buf_put_def)
  have "region ?b2 off (?cl + 1) = enc_labels ls @ [0]"
    by (rule nth_equalityI) (auto simp: nth_append r1)
  moreover have "dns_encode_name st b off nm = Inr (off + ?cl + 1, st4, ?b2)"
    using elen s e cl b1 ad p4 b2
    by (simp add: dns_encode_name_def nc Let_def add.assoc DNS_MAX_NAME_LEN_def
          del: region_length)
  ultimately show ?thesis by (simp add: nl add.assoc)
qed

lemma clist_reset_fresh:
  assumes "clist_clean st"
  shows "clist (clist_reset st) = clist_initializer"
    and "used_clist_count (clist_reset st) = 8"
    and "8 \<le> allocated_clist_count (clist_reset st)"
    and "realloc_answers (clist_reset st) = realloc_answers st"
  using assms
  by (auto simp: clist_reset_def clist_clean_def clist_initializer_count_def fun_eq_iff
        clist_initializer_def)

lemma name_image_same:
  assumes "name_image ls nm" and "name_image ls nm'"
  shows "name_length nm' = name_length nm" and "name_count nm' = name_count nm"
    and "label_bytes nm' = label_bytes nm"
    and "\<forall>i < name_count nm. name_offset nm' i = name_offset nm i"
  using assms unfolding name_image_def label_bytes_def by auto

text \<open>
  C3. A name that \<open>dns_decode_name\<close> has decoded, at any offset of any packet and
  whatever pointers it followed, is encoded by \<open>dns_encode_name\<close> on the
  compression list just reset, when no \<open>realloc\<close> fails and the name fits into the
  buffer of the packet to send: the bytes written are the labels of the decoded name
  in full, and decoding them again at that offset, in any packet holding that buffer and
  long enough for the name, gives a name with the same label bytes, length, label count
  and label offsets.
\<close>

theorem name_round_trip:
  assumes dec: "dns_decode_name pkt off nm0 = Inr (r, nm, lg)" and r: "r \<noteq> 0"
    and clean: "clist_clean st0" and ans: "\<forall>k. realloc_answers st0 k"
    and room: "off2 + name_length nm \<le> MDNS_MAX_PACKET_SIZE"
  shows "\<exists>st' b'.
           dns_encode_name (clist_reset st0) b off2 nm = Inr (off2 + name_length nm, st', b') \<and>
           region b' off2 (name_length nm) = label_bytes nm \<and>
           (\<forall>pkt2 nm1.
              buffer pkt2 = b' \<and> off2 + name_length nm \<le> bytes pkt2 \<and>
              bytes pkt2 \<le> MDNS_MAX_PACKET_SIZE \<longrightarrow>
              (\<exists>nm'. dns_decode_name pkt2 off2 nm1 = Inr (off2 + name_length nm, nm', []) \<and>
                     label_bytes nm' = label_bytes nm \<and>
                     name_length nm' = name_length nm \<and> name_count nm' = name_count nm \<and>
                     (\<forall>i < name_count nm. name_offset nm' i = name_offset nm i)))"
proof -
  obtain ls where im: "name_image ls nm"
    using decode_loop_name_image[OF dec[unfolded dns_decode_name_def] r name_prefix_Nil] by blast
  have ans': "\<forall>k. realloc_answers (clist_reset st0) k"
    using ans by (simp add: clist_reset_fresh(4)[OF clean])
  obtain st' b' where
    enc: "dns_encode_name (clist_reset st0) b off2 nm = Inr (off2 + name_length nm, st', b')"
    and reg: "region b' off2 (name_length nm) = enc_labels ls @ [0]"
    using dns_encode_name_fresh[OF im clist_reset_fresh(1-3)[OF clean] ans' room] by blast
  have nl: "name_length nm = length (enc_labels ls) + 1"
    and lab: "label_bytes nm = enc_labels ls @ [0]"
    and ok: "\<forall>l \<in> set ls. label_ok l"
    and len: "length ([] @ ls) + 1 \<le> MAX_NUM_LABELS"
    and elen: "length (enc_labels ([] @ ls)) + 1 \<le> DNS_MAX_NAME_LEN"
    using im unfolding name_image_def label_bytes_def by auto
  have again: "\<exists>nm'. dns_decode_name pkt2 off2 nm1 = Inr (off2 + name_length nm, nm', []) \<and>
                 label_bytes nm' = label_bytes nm \<and>
                 name_length nm' = name_length nm \<and> name_count nm' = name_count nm \<and>
                 (\<forall>i < name_count nm. name_offset nm' i = name_offset nm i)"
    if b: "buffer pkt2 = b'" and fit: "off2 + name_length nm \<le> bytes pkt2"
      and sz: "bytes pkt2 \<le> MDNS_MAX_PACKET_SIZE" for pkt2 nm1
  proof -
    have r2: "region (buffer pkt2) off2 (length (enc_labels ls) + 1) = enc_labels ls @ [0]"
      using reg by (simp add: b nl)
    have f2: "off2 + length (enc_labels ls) + 1 \<le> bytes pkt2" using fit by (simp add: nl)
    obtain nm' where
      d: "dns_decode_name_loop pkt2 off2 off2 False 0 0 nm1
            = Inr (off2 + length (enc_labels ls) + 1, nm', [])"
      and im': "name_image ([] @ ls) nm'"
      using decode_image[OF name_prefix_Nil ok r2 f2 sz len elen] by blast
    from im' have im2: "name_image ls nm'" by simp
    show ?thesis
      using d name_image_same[OF im im2]
      by (intro exI[of _ nm']) (simp add: dns_decode_name_def nl add.assoc)
  qed
  show ?thesis
    using enc reg lab again by (intro exI[of _ st'] exI[of _ b']) simp
qed

theorem name_round_trip_witness:
  "\<exists>nm lg st' b' nm'.
     dns_decode_name pointer_name_packet 21 zero_name = Inr (25, nm, lg) \<and>
     dns_encode_name (clist_reset (dns_state example_storage)) (\<lambda>i. 0) 12 nm = Inr (23, st', b') \<and>
     region b' 12 11 = [1, 0x62, 1, 0x61, 5, 0x6c, 0x6f, 0x63, 0x61, 0x6c, 0] \<and>
     dns_decode_name \<lparr>bytes = 23, buffer = b'\<rparr> 12 zero_name = Inr (23, nm', []) \<and>
     label_bytes nm' = [1, 0x62, 1, 0x61, 5, 0x6c, 0x6f, 0x63, 0x61, 0x6c, 0]"
proof -
  obtain nm lg where d: "dns_decode_name pointer_name_packet 21 zero_name = Inr (25, nm, lg)"
    and nl: "name_length nm = 11"
    and lb: "label_bytes nm = [1, 0x62, 1, 0x61, 5, 0x6c, 0x6f, 0x63, 0x61, 0x6c, 0]"
    by (simp add: pointer_name_packet_def pointer_name_datagram_def decode_eval
          label_bytes_def region_def upt_rec)
  have clean: "clist_clean (dns_state example_storage)"
    by (simp add: clist_clean_def example_storage_def dns_state_create_def
          clist_initializer_count_def)
  have ans: "\<forall>k. realloc_answers (dns_state example_storage) k"
    by (simp add: example_storage_def dns_state_create_def)
  have room: "12 + name_length nm \<le> MDNS_MAX_PACKET_SIZE"
    by (simp add: nl MDNS_MAX_PACKET_SIZE_def)
  have r: "(25::nat) \<noteq> 0" by simp
  from name_round_trip[OF d r clean ans room, of "\<lambda>i. 0"]
  obtain st' b' where
    enc: "dns_encode_name (clist_reset (dns_state example_storage)) (\<lambda>i. 0) 12 nm
            = Inr (12 + name_length nm, st', b')"
    and reg: "region b' 12 (name_length nm) = label_bytes nm"
    and again: "\<forall>pkt2 nm1.
              buffer pkt2 = b' \<and> 12 + name_length nm \<le> bytes pkt2 \<and>
              bytes pkt2 \<le> MDNS_MAX_PACKET_SIZE \<longrightarrow>
              (\<exists>nm'. dns_decode_name pkt2 12 nm1 = Inr (12 + name_length nm, nm', []) \<and>
                     label_bytes nm' = label_bytes nm \<and>
                     name_length nm' = name_length nm \<and> name_count nm' = name_count nm \<and>
                     (\<forall>i < name_count nm. name_offset nm' i = name_offset nm i))"
    by blast
  from again[rule_format, of "\<lparr>bytes = 23, buffer = b'\<rparr>" zero_name]
  obtain nm' where "dns_decode_name \<lparr>bytes = 23, buffer = b'\<rparr> 12 zero_name = Inr (23, nm', [])"
    and "label_bytes nm' = label_bytes nm"
    by (auto simp: nl MDNS_MAX_PACKET_SIZE_def)
  with d enc reg lb show ?thesis by (auto simp: nl)
qed
end
